theory Spec2Isabelle
  imports Main
begin

section \<open>Python values and exceptions\<close>

text \<open>
  The configuration builders are Python functions over dictionaries with string keys and
  values of mixed type, so the embedding has one type of Python values. An exception is
  a value of \<open>error\<close>, and a function that can raise returns \<open>error + 'a\<close> with
  \<open>Inl\<close> for the exception. \<open>UnboundLocalError\<close> is Python's subclass of
  \<open>NameError\<close> raised when a local variable is read before any assignment, and
  \<open>JSONDecodeError\<close> is a subclass of \<open>ValueError\<close>.

  A float is represented by its \<open>repr\<close>, the shortest decimal string that reads back
  as the same float: \<open>PFloat ''0.0''\<close> is the float that the literal \<open>0.\<close> denotes.
  Float arithmetic and the conversion of a decimal literal to a float are not
  represented: an operation that needs one of them yields \<open>Unmodelled\<close>, which is not
  a Python exception but the edge of the embedding. The same holds for \<open>str\<close> of a
  list, tuple or dict.
\<close>

datatype TpuVersion = V2 | V3 | V4 | V5E | V5P | TRILLIUM

datatype error =
    KeyError string
  | ValueError
  | TypeError
  | AttributeError
  | UnboundLocalError string
  | JSONDecodeError
  | OverflowError
  | Unmodelled

datatype pyval =
    PNone
  | PBool bool
  | PInt int
  | PFloat string
  | PStr string
  | PList "pyval list"
  | PTuple "pyval list"
  | PDict "(string \<times> pyval) list"
  | PTpuVersion TpuVersion

type_synonym dict = "(string \<times> pyval) list"

definition py_bind :: "error + 'a \<Rightarrow> ('a \<Rightarrow> error + 'b) \<Rightarrow> error + 'b" where
  "py_bind m f = (case m of Inl e \<Rightarrow> Inl e | Inr x \<Rightarrow> f x)"

text \<open>\<open>d[k]\<close> on a dict, \<open>d[k] = v\<close> (an existing key keeps its position) and \<open>a | b\<close>.\<close>

definition dict_get :: "dict \<Rightarrow> string \<Rightarrow> error + pyval" where
  "dict_get d k = (case map_of d k of None \<Rightarrow> Inl (KeyError k) | Some v \<Rightarrow> Inr v)"

fun dict_set :: "dict \<Rightarrow> string \<Rightarrow> pyval \<Rightarrow> dict" where
  "dict_set [] k v = [(k, v)]"
| "dict_set ((k', v') # d) k v = (if k' = k then (k, v) # d else (k', v') # dict_set d k v)"

definition dict_or :: "dict \<Rightarrow> dict \<Rightarrow> dict" where
  "dict_or a b = foldl (\<lambda>d (k, v). dict_set d k v) a b"

text \<open>\<open>obj[k]\<close> with a string key on any value: only a dict accepts it.\<close>

fun py_getitem :: "pyval \<Rightarrow> string \<Rightarrow> error + pyval" where
  "py_getitem (PDict d) k = dict_get d k"
| "py_getitem _ k = Inl TypeError"

text \<open>Decimal digits of an integer, as \<open>str\<close> prints them.\<close>

fun str_nat :: "nat \<Rightarrow> string" where
  "str_nat n = (if n < 10 then [''0123456789'' ! n] else str_nat (n div 10) @ [''0123456789'' ! (n mod 10)])"

declare str_nat.simps [simp del]

definition str_int :: "int \<Rightarrow> string" where
  "str_int i = (if i < 0 then CHR ''-'' # str_nat (nat (- i)) else str_nat (nat i))"

fun TpuVersion_value :: "TpuVersion \<Rightarrow> string" where
  "TpuVersion_value V2 = ''2''"
| "TpuVersion_value V3 = ''3''"
| "TpuVersion_value V4 = ''4''"
| "TpuVersion_value V5E = ''5litepod''"
| "TpuVersion_value V5P = ''5p''"
| "TpuVersion_value TRILLIUM = ''6e''"

fun TpuVersion_name :: "TpuVersion \<Rightarrow> string" where
  "TpuVersion_name V2 = ''V2''"
| "TpuVersion_name V3 = ''V3''"
| "TpuVersion_name V4 = ''V4''"
| "TpuVersion_name V5E = ''V5E''"
| "TpuVersion_name V5P = ''V5P''"
| "TpuVersion_name TRILLIUM = ''TRILLIUM''"

text \<open>\<open>str(v)\<close>, which is also what an f-string field \<open>{v}\<close> inserts.\<close>

fun py_str :: "pyval \<Rightarrow> error + string" where
  "py_str (PStr s) = Inr s"
| "py_str (PInt i) = Inr (str_int i)"
| "py_str (PBool b) = Inr (if b then ''True'' else ''False'')"
| "py_str PNone = Inr ''None''"
| "py_str (PTpuVersion v) = Inr (''TpuVersion.'' @ TpuVersion_name v)"
| "py_str (PFloat r) = Inr r"
| "py_str _ = Inl Unmodelled"

text \<open>\<open>sep.join(xs)\<close> on a sequence of strings.\<close>

fun py_join :: "string \<Rightarrow> string list \<Rightarrow> string" where
  "py_join sep [] = []"
| "py_join sep [x] = x"
| "py_join sep (x # y # ys) = x @ sep @ py_join sep (y # ys)"

definition nl :: string where
  "nl = [CHR 0x0A]"

definition sq :: string where
  "sq = [CHR 0x27]"

definition dq :: string where
  "dq = [CHR 0x22]"

section \<open>xlml/apis/test\_config.py\<close>

text \<open>
  The \<open>attrs\<close> classes are records. \<open>attrs.define\<close> installs no validator, so a
  field filled from parsed JSON holds whatever value the JSON has: such fields are
  \<open>pyval\<close>. The fields \<open>test_name\<close>, \<open>set_up_cmds\<close>, \<open>run_model_cmds\<close>,
  \<open>num_slices\<close> and \<open>use_startup_script\<close> occur in several classes; the records
  of \<open>TpuGkeTest\<close> and \<open>JSonnetTpuVmTest\<close> prefix a field with \<open>gke_\<close> or
  \<open>js_\<close> where the plain name is taken or is a keyword of Isabelle.
\<close>

record Tpu =
  version :: TpuVersion
  cores :: pyval
  runtime_version :: pyval
  network :: string
  subnetwork :: string
  reserved :: bool

record TestConfig =
  accelerator :: Tpu
  time_out_in_min :: pyval
  task_owner :: string

record TpuVmTest = TestConfig +
  test_name :: string
  set_up_cmds :: "string list"
  run_model_cmds :: "string list"
  num_slices :: int
  use_startup_script :: bool

record TpuGkeTest = TestConfig +
  gke_test_name :: string
  cluster_name :: string
  docker_image :: string
  gke_set_up_cmds :: "string list"
  gke_run_model_cmds :: "string list"
  startup_time_out_in_sec :: int
  gke_num_slices :: int

record JSonnetTpuVmTest = TestConfig +
  js_test_name :: pyval
  js_setup :: string
  js_exports :: string
  js_test_command :: "string list"
  js_num_slices :: int
  js_use_startup_script :: bool

text \<open>\<open>TpuVmTest.setup_script\<close>, \<open>test_script\<close> and \<open>startup_script\<close>.\<close>

definition TpuVmTest_setup_script :: "TpuVmTest \<Rightarrow> string" where
  "TpuVmTest_setup_script t = py_join nl (set_up_cmds t)"

definition TpuVmTest_test_script :: "TpuVmTest \<Rightarrow> string" where
  "TpuVmTest_test_script t = py_join nl (run_model_cmds t)"

definition TpuVmTest_startup_script :: "TpuVmTest \<Rightarrow> string" where
  "TpuVmTest_startup_script t =
     (if use_startup_script t = False then []
      else
        let main_command = py_join nl (set_up_cmds t @ run_model_cmds t) in
        nl @ ''bash -c '' @ sq @ main_command @ '' 2>&1 | tee /tmp/logs &'' @ nl
        @ ''pid=$!'' @ nl
        @ ''echo $pid > /tmp/main_process_id.txt'' @ nl
        @ ''wait $pid'' @ nl
        @ ''exit_status=$?'' @ nl
        @ ''echo $exit_status > /tmp/process_exit_status.txt'' @ sq @ nl)"

text \<open>\<open>TpuGkeTest.setup_script\<close> and \<open>test_script\<close>.\<close>

definition TpuGkeTest_setup_script :: "TpuGkeTest \<Rightarrow> string" where
  "TpuGkeTest_setup_script t = py_join '';'' (gke_set_up_cmds t)"

definition TpuGkeTest_test_script :: "TpuGkeTest \<Rightarrow> string" where
  "TpuGkeTest_test_script t = py_join '';'' (gke_run_model_cmds t)"

text \<open>
  \<open>TpuVersion(s)\<close> finds the member whose value is \<open>s\<close> and raises \<open>ValueError\<close>
  when there is none. \<open>TpuVersion_of\<close> is \<open>TpuVersion(str(v))\<close>: the \<open>str\<close> of a
  float, bool, \<open>None\<close>, list, tuple, dict or enum member is never one of the six values,
  so only a string or an integer can succeed.
\<close>

definition TpuVersion_call :: "string \<Rightarrow> error + TpuVersion" where
  "TpuVersion_call s =
     (case filter (\<lambda>v. TpuVersion_value v = s) [V2, V3, V4, V5E, V5P, TRILLIUM] of
        [] \<Rightarrow> Inl ValueError
      | v # _ \<Rightarrow> Inr v)"

fun TpuVersion_of :: "pyval \<Rightarrow> error + TpuVersion" where
  "TpuVersion_of (PStr s) = TpuVersion_call s"
| "TpuVersion_of (PInt i) = TpuVersion_call (str_int i)"
| "TpuVersion_of _ = Inl ValueError"

text \<open>
  \<open>v // 60\<close>. On integers this is floor division, which is \<open>div\<close> on \<open>int\<close>; a
  bool counts as 0 or 1; float floor division is outside the embedding; every other
  operand raises \<open>TypeError\<close>.
\<close>

fun py_floordiv_60 :: "pyval \<Rightarrow> error + pyval" where
  "py_floordiv_60 (PInt n) = Inr (PInt (n div 60))"
| "py_floordiv_60 (PBool b) = Inr (PInt ((if b then 1 else 0) div 60))"
| "py_floordiv_60 (PFloat x) = Inl Unmodelled"
| "py_floordiv_60 _ = Inl TypeError"

text \<open>
  \<open>JSonnetTpuVmTest._from_json_helper\<close>. The keyword arguments are evaluated in the
  order they are written; \<open>network\<close>, \<open>subnetwork\<close>, \<open>task_owner\<close>,
  \<open>num_slices\<close> and \<open>use_startup_script\<close> take their defaults.
\<close>

definition from_json_helper ::
  "pyval \<Rightarrow> string \<Rightarrow> string \<Rightarrow> string list \<Rightarrow> bool \<Rightarrow> error + JSonnetTpuVmTest" where
  "from_json_helper test setup' exports' test_command' reserved' =
     py_bind (py_getitem test ''testName'') (\<lambda>name.
     py_bind (py_getitem test ''accelerator'') (\<lambda>acc.
     py_bind (py_getitem acc ''version'') (\<lambda>ver.
     py_bind (TpuVersion_of ver) (\<lambda>tv.
     py_bind (py_getitem test ''accelerator'') (\<lambda>acc'.
     py_bind (py_getitem acc' ''size'') (\<lambda>size'.
     py_bind (py_getitem test ''tpuSettings'') (\<lambda>settings.
     py_bind (py_getitem settings ''softwareVersion'') (\<lambda>sw.
     py_bind (py_getitem test ''timeout'') (\<lambda>timeout.
     py_bind (py_floordiv_60 timeout) (\<lambda>mins.
     Inr \<lparr> accelerator = \<lparr> version = tv, cores = size', runtime_version = sw,
                             network = ''default'', subnetwork = ''default'',
                             reserved = reserved' \<rparr>,
           time_out_in_min = mins,
           task_owner = ''unowned'',
           js_test_name = name,
           js_setup = setup',
           js_exports = exports',
           js_test_command = test_command',
           js_num_slices = 1,
           js_use_startup_script = False \<rparr>))))))))))"

text \<open>\<open>JSonnetTpuVmTest.startup_script\<close>: the property's body is \<open>return None\<close>.\<close>

definition JSonnetTpuVmTest_startup_script :: "JSonnetTpuVmTest \<Rightarrow> string option" where
  "JSonnetTpuVmTest_startup_script t = None"

section \<open>The standard library's \<open>json.loads\<close>\<close>

text \<open>
  \<open>json.loads\<close> as \<open>json.decoder\<close> and \<open>json.scanner\<close> implement it, in strict
  mode: skip white space, scan one value, skip white space, and fail on anything left.
  Every failure is \<open>JSONDecodeError\<close>. Strings are byte strings here, so a \<open>\u\<close>
  escape, which names a code point, is \<open>Unmodelled\<close>, and so is a number with a
  fraction or an exponent, which \<open>float\<close> converts. The recursion over nested arrays
  and objects carries fuel; \<open>json_loads\<close> supplies two units for each character, and
  a scan that ran out of it would be \<open>Unmodelled\<close>.
\<close>

definition is_ws :: "char \<Rightarrow> bool" where
  "is_ws c = (c \<in> set [CHR '' '', CHR 0x09, CHR 0x0A, CHR 0x0D])"

definition skip_ws :: "string \<Rightarrow> string" where
  "skip_ws s = dropWhile is_ws s"

definition is_digit :: "char \<Rightarrow> bool" where
  "is_digit c = (c \<in> set ''0123456789'')"

definition is_hex :: "char \<Rightarrow> bool" where
  "is_hex c = (c \<in> set ''0123456789abcdefABCDEF'')"

definition digit_val :: "char \<Rightarrow> nat" where
  "digit_val c = length (takeWhile (\<lambda>d. d \<noteq> c) ''0123456789'')"

definition nat_of_digits :: "string \<Rightarrow> nat" where
  "nat_of_digits s = foldl (\<lambda>acc c. 10 * acc + digit_val c) 0 s"

text \<open>
  The scanner's \<open>NUMBER_RE\<close>, \<open>(-?(?:0|[1-9]\d*))(\.\d+)?([eE][-+]?\d+)?\<close>, matched at the
  head of the input: the integer part, then the optional fraction and exponent. The
  result is the three groups, an absent one being empty, and the rest of the input, or
  \<open>None\<close> when the integer part does not match.
\<close>

definition match_integer :: "string \<Rightarrow> (string \<times> string) option" where
  "match_integer s =
     (let (sign, r) = (case s of c # cs \<Rightarrow> if c = CHR ''-'' then ([c], cs) else ([], s) | [] \<Rightarrow> ([], s))
      in case r of
           [] \<Rightarrow> None
         | c # cs \<Rightarrow>
             if c = CHR ''0'' then Some (sign @ [c], cs)
             else if is_digit c then Some (sign @ takeWhile is_digit r, dropWhile is_digit r)
             else None)"

definition match_frac :: "string \<Rightarrow> string \<times> string" where
  "match_frac s =
     (case s of
        c # d # cs \<Rightarrow>
          if c = CHR ''.'' \<and> is_digit d
          then (c # takeWhile is_digit (d # cs), dropWhile is_digit (d # cs))
          else ([], s)
      | _ \<Rightarrow> ([], s))"

definition match_exp :: "string \<Rightarrow> string \<times> string" where
  "match_exp s =
     (case s of
        [] \<Rightarrow> ([], s)
      | e # r \<Rightarrow>
          if e = CHR ''e'' \<or> e = CHR ''E'' then
            (let (sign, r') = (case r of c # cs \<Rightarrow> if c = CHR ''-'' \<or> c = CHR ''+'' then ([c], cs) else ([], r)
                                       | [] \<Rightarrow> ([], r))
             in case r' of
                  d # ds \<Rightarrow> if is_digit d
                            then (e # sign @ takeWhile is_digit r', dropWhile is_digit r')
                            else ([], s)
                | [] \<Rightarrow> ([], s))
          else ([], s))"

definition match_number :: "string \<Rightarrow> ((string \<times> string \<times> string) \<times> string) option" where
  "match_number s =
     (case match_integer s of
        None \<Rightarrow> None
      | Some (integer, r1) \<Rightarrow>
          (let (frac, r2) = match_frac r1; (exp, r3) = match_exp r2
           in Some ((integer, frac, exp), r3)))"

text \<open>\<open>int(s)\<close> on a match of the integer part.\<close>

definition parse_int :: "string \<Rightarrow> int" where
  "parse_int s =
     (case s of
        c # cs \<Rightarrow> if c = CHR ''-'' then - int (nat_of_digits cs) else int (nat_of_digits s)
      | [] \<Rightarrow> 0)"

text \<open>\<open>py_scanstring\<close> after the opening quote: the decoded string and the rest.\<close>

definition BACKSLASH :: "char \<rightharpoonup> char" where
  "BACKSLASH = map_of
     [(CHR 0x22, CHR 0x22), (CHR 0x5C, CHR 0x5C), (CHR ''/'', CHR ''/''),
      (CHR ''b'', CHR 0x08), (CHR ''f'', CHR 0x0C), (CHR ''n'', CHR 0x0A),
      (CHR ''r'', CHR 0x0D), (CHR ''t'', CHR 0x09)]"

fun scanstring :: "string \<Rightarrow> string \<Rightarrow> error + (string \<times> string)" where
  "scanstring acc [] = Inl JSONDecodeError"
| "scanstring acc [c] = (if c = CHR 0x22 then Inr (acc, []) else Inl JSONDecodeError)"
| "scanstring acc (c # e # cs) =
     (if c = CHR 0x22 then Inr (acc, e # cs)
      else if c = CHR 0x5C then
        (if e = CHR ''u'' then
           (if length cs \<ge> 4 \<and> list_all is_hex (take 4 cs) then Inl Unmodelled
            else Inl JSONDecodeError)
         else case BACKSLASH e of
                None \<Rightarrow> Inl JSONDecodeError
              | Some ch \<Rightarrow> scanstring (acc @ [ch]) cs)
      else if of_char c < (0x20 :: nat) then Inl JSONDecodeError
      else scanstring (acc @ [c]) (e # cs))"

text \<open>
  \<open>scan_once\<close> scans one value at the head of the input. \<open>parse_array\<close> and
  \<open>parse_object\<close> continue after the opening bracket and the white space behind it,
  when the container is not empty; a repeated key keeps its first position and takes
  the last value, as \<open>dict(pairs)\<close> does.
\<close>

fun scan_once :: "nat \<Rightarrow> string \<Rightarrow> error + (pyval \<times> string)"
  and parse_array :: "nat \<Rightarrow> pyval list \<Rightarrow> string \<Rightarrow> error + (pyval \<times> string)"
  and parse_object :: "nat \<Rightarrow> dict \<Rightarrow> string \<Rightarrow> error + (pyval \<times> string)" where
  "scan_once 0 s = Inl Unmodelled"
| "scan_once (Suc n) [] = Inl JSONDecodeError"
| "scan_once (Suc n) (c # cs) =
     (if c = CHR 0x22 then
        py_bind (scanstring [] cs) (\<lambda>(str, rest). Inr (PStr str, rest))
      else if c = CHR ''{'' then
        (case skip_ws cs of
           [] \<Rightarrow> Inl JSONDecodeError
         | d # rest \<Rightarrow> if d = CHR ''}'' then Inr (PDict [], rest) else parse_object n [] (d # rest))
      else if c = CHR ''['' then
        (case skip_ws cs of
           [] \<Rightarrow> Inl JSONDecodeError
         | d # rest \<Rightarrow> if d = CHR '']'' then Inr (PList [], rest) else parse_array n [] (d # rest))
      else if take 4 (c # cs) = ''null'' then Inr (PNone, drop 4 (c # cs))
      else if take 4 (c # cs) = ''true'' then Inr (PBool True, drop 4 (c # cs))
      else if take 5 (c # cs) = ''false'' then Inr (PBool False, drop 5 (c # cs))
      else case match_number (c # cs) of
             Some ((integer, frac, exp), rest) \<Rightarrow>
               if frac \<noteq> [] \<or> exp \<noteq> [] then Inl Unmodelled
               else Inr (PInt (parse_int integer), rest)
           | None \<Rightarrow>
               if take 3 (c # cs) = ''NaN'' then Inr (PFloat ''nan'', drop 3 (c # cs))
               else if take 8 (c # cs) = ''Infinity'' then Inr (PFloat ''inf'', drop 8 (c # cs))
               else if take 9 (c # cs) = ''-Infinity'' then Inr (PFloat ''-inf'', drop 9 (c # cs))
               else Inl JSONDecodeError)"
| "parse_array 0 acc s = Inl Unmodelled"
| "parse_array (Suc n) acc s =
     py_bind (scan_once n s) (\<lambda>(v, r).
       case skip_ws r of
         [] \<Rightarrow> Inl JSONDecodeError
       | d # rest \<Rightarrow>
           if d = CHR '']'' then Inr (PList (acc @ [v]), rest)
           else if d = CHR '','' then parse_array n (acc @ [v]) (skip_ws rest)
           else Inl JSONDecodeError)"
| "parse_object 0 acc s = Inl Unmodelled"
| "parse_object (Suc n) acc s =
     (case s of
        [] \<Rightarrow> Inl JSONDecodeError
      | q # cs \<Rightarrow>
          if q \<noteq> CHR 0x22 then Inl JSONDecodeError
          else
            py_bind (scanstring [] cs) (\<lambda>(key, r1).
              case skip_ws r1 of
                [] \<Rightarrow> Inl JSONDecodeError
              | colon # r2 \<Rightarrow>
                  if colon \<noteq> CHR '':'' then Inl JSONDecodeError
                  else
                    py_bind (scan_once n (skip_ws r2)) (\<lambda>(v, r3).
                      case skip_ws r3 of
                        [] \<Rightarrow> Inl JSONDecodeError
                      | d # rest \<Rightarrow>
                          if d = CHR ''}'' then Inr (PDict (dict_set acc key v), rest)
                          else if d = CHR '','' then parse_object n (dict_set acc key v) (skip_ws rest)
                          else Inl JSONDecodeError)))"

definition json_loads :: "string \<Rightarrow> error + pyval" where
  "json_loads s =
     py_bind (scan_once (2 * length s + 2) (skip_ws s)) (\<lambda>(v, rest).
       if skip_ws rest = [] then Inr v else Inl JSONDecodeError)"

section \<open>dags/vm\_resource.py\<close>

definition V5_NETWORKS_PREFIX :: string where
  "V5_NETWORKS_PREFIX = ''projects/tpu-prod-env-automated''"

definition V5_NETWORKS :: string where
  "V5_NETWORKS = V5_NETWORKS_PREFIX @ ''/global/networks/mas-test''"

definition V5E_SUBNETWORKS :: string where
  "V5E_SUBNETWORKS = V5_NETWORKS_PREFIX @ ''/regions/us-east1/subnetworks/mas-test''"

definition V5P_SUBNETWORKS :: string where
  "V5P_SUBNETWORKS = V5_NETWORKS_PREFIX @ ''/regions/us-east5/subnetworks/mas-test''"

datatype Project =
    CLOUD_ML_AUTO_SOLUTIONS
  | CLOUD_ML_BENCHMARKING
  | TPU_PROD_ENV_MULTIPOD
  | TPU_PROD_ENV_AUTOMATED
  | CLOUD_TPU_MULTIPOD_DEV
  | SUPERCOMPUTER_TESTING
  | CLOUD_TPU_INFERENCE_TEST
  | TPU_PROD_ENV_LARGE_ADHOC

fun Project_value :: "Project \<Rightarrow> string" where
  "Project_value CLOUD_ML_AUTO_SOLUTIONS = ''cloud-ml-auto-solutions''"
| "Project_value CLOUD_ML_BENCHMARKING = ''cloud-ml-benchmarking''"
| "Project_value TPU_PROD_ENV_MULTIPOD = ''tpu-prod-env-multipod''"
| "Project_value TPU_PROD_ENV_AUTOMATED = ''tpu-prod-env-automated''"
| "Project_value CLOUD_TPU_MULTIPOD_DEV = ''cloud-tpu-multipod-dev''"
| "Project_value SUPERCOMPUTER_TESTING = ''supercomputer-testing''"
| "Project_value CLOUD_TPU_INFERENCE_TEST = ''cloud-tpu-inference-test''"
| "Project_value TPU_PROD_ENV_LARGE_ADHOC = ''tpu-prod-env-large-adhoc''"

datatype Zone =
    US_CENTRAL1_A
  | US_CENTRAL1_B
  | US_CENTRAL2_B
  | US_CENTRAL1_C
  | US_CENTRAL1_F
  | US_EAST1_C
  | US_EAST1_D
  | US_EAST4_A
  | US_EAST5_A
  | US_WEST4_B
  | US_WEST1_C
  | AUSTRALIA_SOUTHEAST1_C

fun Zone_value :: "Zone \<Rightarrow> string" where
  "Zone_value US_CENTRAL1_A = ''us-central1-a''"
| "Zone_value US_CENTRAL1_B = ''us-central1-b''"
| "Zone_value US_CENTRAL2_B = ''us-central2-b''"
| "Zone_value US_CENTRAL1_C = ''us-central1-c''"
| "Zone_value US_CENTRAL1_F = ''us-central1-f''"
| "Zone_value US_EAST1_C = ''us-east1-c''"
| "Zone_value US_EAST1_D = ''us-east1-d''"
| "Zone_value US_EAST4_A = ''us-east4-a''"
| "Zone_value US_EAST5_A = ''us-east5-a''"
| "Zone_value US_WEST4_B = ''us-west4-b''"
| "Zone_value US_WEST1_C = ''us-west1-c''"
| "Zone_value AUSTRALIA_SOUTHEAST1_C = ''australia-southeast1-c''"

datatype RuntimeVersion =
    TPU_VM_TF_NIGHTLY
  | TPU_VM_TF_NIGHTLY_POD
  | TPU_VM_TF_STABLE_SE
  | TPU_VM_TF_STABLE_POD_SE
  | TPU_VM_TF_STABLE_PJRT
  | TPU_VM_TF_STABLE_POD_PJRT
  | TPU_VM_TF_V5P_ALPHA
  | TPU_UBUNTU2204_BASE
  | TPU_VM_V4_BASE
  | V2_ALPHA_TPUV5_LITE
  | V2_ALPHA_TPUV5

fun RuntimeVersion_value :: "RuntimeVersion \<Rightarrow> string" where
  "RuntimeVersion_value TPU_VM_TF_NIGHTLY = ''tpu-vm-tf-nightly''"
| "RuntimeVersion_value TPU_VM_TF_NIGHTLY_POD = ''tpu-vm-tf-nightly-pod''"
| "RuntimeVersion_value TPU_VM_TF_STABLE_SE = ''tpu-vm-tf-2.16.0-se''"
| "RuntimeVersion_value TPU_VM_TF_STABLE_POD_SE = ''tpu-vm-tf-2.16.0-pod-se''"
| "RuntimeVersion_value TPU_VM_TF_STABLE_PJRT = ''tpu-vm-tf-2.16.0-pjrt''"
| "RuntimeVersion_value TPU_VM_TF_STABLE_POD_PJRT = ''tpu-vm-tf-2.16.0-pod-pjrt''"
| "RuntimeVersion_value TPU_VM_TF_V5P_ALPHA = ''tpu-vm-tf-v5p-alpha-sc''"
| "RuntimeVersion_value TPU_UBUNTU2204_BASE = ''tpu-ubuntu2204-base''"
| "RuntimeVersion_value TPU_VM_V4_BASE = ''tpu-vm-v4-base''"
| "RuntimeVersion_value V2_ALPHA_TPUV5_LITE = ''v2-alpha-tpuv5-lite''"
| "RuntimeVersion_value V2_ALPHA_TPUV5 = ''v2-alpha-tpuv5''"

text \<open>
  The value of every \<open>DockerImage\<close> member but the first is an f-string that formats
  \<open>datetime.datetime.today()\<close>, evaluated when the module is imported. The clock is
  not an argument of anything in the module, so the embedding makes it one: a value is
  computed from the calendar date that \<open>today()\<close> returned. \<open>%Y\<close> prints the year as
  it is and \<open>%m\<close> and \<open>%d\<close> pad to two digits.
\<close>

record date =
  year :: nat
  month :: nat
  day :: nat

definition zero_pad :: "nat \<Rightarrow> string \<Rightarrow> string" where
  "zero_pad w s = replicate (w - length s) (CHR ''0'') @ s"

definition strftime_Ymd :: "date \<Rightarrow> string" where
  "strftime_Ymd d = str_nat (year d) @ zero_pad 2 (str_nat (month d)) @ zero_pad 2 (str_nat (day d))"

definition strftime_Y_m_d :: "date \<Rightarrow> string" where
  "strftime_Y_m_d d =
     str_nat (year d) @ ''-'' @ zero_pad 2 (str_nat (month d)) @ ''-'' @ zero_pad 2 (str_nat (day d))"

datatype DockerImage =
    XPK_JAX_TEST
  | PYTORCH_NIGHTLY
  | MAXTEXT_TPU_JAX_STABLE
  | MAXDIFFUSION_TPU_STABLE
  | MAXDIFFUSION_TPU_JAX_NIGHTLY
  | MAXTEXT_TPU_JAX_NIGHTLY
  | MAXTEXT_GPU_JAX_PINNED
  | MAXTEXT_GPU_JAX_STABLE
  | MAXTEXT_GPU_JAX_NIGHTLY
  | CLOUD_HYBRIDSIM_NIGHTLY

fun DockerImage_value :: "date \<Rightarrow> DockerImage \<Rightarrow> string" where
  "DockerImage_value today XPK_JAX_TEST = ''gcr.io/cloud-ml-auto-solutions/xpk_jax_test:latest''"
| "DockerImage_value today PYTORCH_NIGHTLY =
     ''us-central1-docker.pkg.dev/tpu-pytorch-releases/docker/''
     @ ''xla:nightly_3.10_tpuvm_'' @ strftime_Ymd today"
| "DockerImage_value today MAXTEXT_TPU_JAX_STABLE =
     ''us-docker.pkg.dev/tpu-prod-env-multipod/maxtext-jax-stable-stack/tpu:''
     @ ''jax0.4.30-rev1-'' @ strftime_Y_m_d today"
| "DockerImage_value today MAXDIFFUSION_TPU_STABLE =
     ''us-docker.pkg.dev/tpu-prod-env-multipod/maxdiffusion-jax-stable-stack/tpu:''
     @ ''jax0.4.30-rev1-'' @ strftime_Y_m_d today"
| "DockerImage_value today MAXDIFFUSION_TPU_JAX_NIGHTLY =
     ''us-docker.pkg.dev/tpu-prod-env-multipod/maxdiffusion-jax-nightly/tpu:''
     @ ''auto-'' @ strftime_Y_m_d today"
| "DockerImage_value today MAXTEXT_TPU_JAX_NIGHTLY =
     ''gcr.io/tpu-prod-env-multipod/maxtext_jax_nightly:'' @ strftime_Y_m_d today"
| "DockerImage_value today MAXTEXT_GPU_JAX_PINNED =
     ''gcr.io/tpu-prod-env-multipod/maxtext_gpu_jax_pinned:'' @ strftime_Y_m_d today"
| "DockerImage_value today MAXTEXT_GPU_JAX_STABLE =
     ''gcr.io/tpu-prod-env-multipod/maxtext_gpu_jax_stable:'' @ strftime_Y_m_d today"
| "DockerImage_value today MAXTEXT_GPU_JAX_NIGHTLY =
     ''gcr.io/tpu-prod-env-multipod/maxtext_gpu_jax_nightly:'' @ strftime_Y_m_d today"
| "DockerImage_value today CLOUD_HYBRIDSIM_NIGHTLY =
     ''us-docker.pkg.dev/cloud-tpu-v2-images-dev/hybridsim/cloud_hybridsim_gcloud_python:''
     @ strftime_Y_m_d today"

section \<open>dags/inference/configs/maxdiffusion\_inference\_gce\_config.py\<close>

text \<open>
  The modules \<open>gcp_config\<close>, \<open>metric_config\<close>, \<open>task\<close>, \<open>test_owner\<close> and
  \<open>common\<close> are not among the sources. Their classes are records with the fields
  that the call sites name, their enumerations have the members that these modules use,
  and the two string constants that end up in the result
  (\<open>metric_config.SshEnvVars.GCS_OUTPUT.value\<close> and \<open>test_owner.VIJAYA_S\<close>) are
  parameters, collected in \<open>xlml_constants\<close>. The keyword \<open>gcs_subfolder\<close> is built
  from \<open>test_owner.Team.INFERENCE.value\<close>, and no field receives it. The argument of
  \<open>JSONLinesConfig\<close> is positional; \<open>file_location\<close> is the name it has here.
\<close>

record xlml_constants =
  GCS_OUTPUT :: string
  VIJAYA_S :: string

datatype DatasetOption = BENCHMARK_DATASET

datatype SetupMode = STABLE

record GCPConfig =
  project_name :: string
  zone :: string
  dataset_name :: DatasetOption

record JSONLinesConfig =
  file_location :: string

record MetricConfig =
  json_lines :: JSONLinesConfig
  use_runtime_generated_gcs_folder :: bool

record TpuQueuedResourceTask =
  task_test_config :: TpuVmTest
  task_gcp_config :: GCPConfig
  task_metric_config :: MetricConfig

definition PROJECT_NAME :: string where
  "PROJECT_NAME = Project_value CLOUD_ML_AUTO_SOLUTIONS"

definition RUNTIME_IMAGE :: string where
  "RUNTIME_IMAGE = RuntimeVersion_value TPU_UBUNTU2204_BASE"

text \<open>\<open>obj[k] = v\<close> with a string key: only a dict accepts it.\<close>

fun py_setitem :: "pyval \<Rightarrow> string \<Rightarrow> pyval \<Rightarrow> error + pyval" where
  "py_setitem (PDict d) k v = Inr (PDict (dict_set d k v))"
| "py_setitem _ k v = Inl TypeError"

text \<open>
  \<open>_modify_save_metrics\<close>. The loop \<open>for k, v in model_configs\<close> iterates over the
  keys of the dict and unpacks each key, a string, into two names: a key of any length
  but two raises \<open>ValueError\<close>, and for a key of length two \<open>k\<close> and \<open>v\<close> are its
  characters. The function writes \<open>json.dumps(metrics)\<close> to the file; the model
  returns \<open>metrics\<close>, the value that is written.
\<close>

fun save_metrics_loop :: "pyval \<Rightarrow> string list \<Rightarrow> error + pyval" where
  "save_metrics_loop metrics [] = Inr metrics"
| "save_metrics_loop metrics (key # keys) =
     (case key of
        [k, v] \<Rightarrow>
          py_bind (py_getitem metrics ''dimensions'') (\<lambda>dims.
          py_bind (py_setitem dims [k] (PStr [v])) (\<lambda>dims'.
          py_bind (py_setitem metrics ''dimensions'' dims') (\<lambda>metrics'.
          save_metrics_loop metrics' keys)))
      | _ \<Rightarrow> Inl ValueError)"

definition modify_save_metrics :: "string \<Rightarrow> dict \<Rightarrow> error + pyval" where
  "modify_save_metrics metrics_file model_configs =
     py_bind (json_loads metrics_file) (\<lambda>metrics.
     save_metrics_loop metrics (map fst model_configs))"

text \<open>
  Calling a class made by \<open>attrs.define\<close> with a keyword that is not one of its fields
  raises \<open>TypeError\<close>. These are the fields of \<open>TpuVmTest\<close>, its own and those of
  \<open>TestConfig\<close>.
\<close>

definition TpuVmTest_fields :: "string list" where
  "TpuVmTest_fields =
     [''accelerator'', ''time_out_in_min'', ''task_owner'', ''test_name'', ''set_up_cmds'',
      ''run_model_cmds'', ''num_slices'', ''use_startup_script'']"

definition unexpected_keywords :: "string list \<Rightarrow> string list \<Rightarrow> string list" where
  "unexpected_keywords accepted keywords = filter (\<lambda>k. k \<notin> set accepted) keywords"

text \<open>
  \<open>datetime.timedelta(minutes=n)\<close> raises \<open>OverflowError\<close> when the number of days
  leaves the range of the type; the result is kept as the number of minutes.
\<close>

definition timedelta_minutes :: "int \<Rightarrow> error + int" where
  "timedelta_minutes n =
     (if - 999999999 \<le> n div 1440 \<and> n div 1440 \<le> 999999999 then Inr n else Inl OverflowError)"

text \<open>Reading a local variable that may not have been assigned.\<close>

definition py_local :: "string \<Rightarrow> 'a option \<Rightarrow> error + 'a" where
  "py_local name v = (case v of None \<Rightarrow> Inl (UnboundLocalError name) | Some x \<Rightarrow> Inr x)"

text \<open>
  Lines 80 to 115 of \<open>get_maxdiffusion_inference_nightly_config\<close>: three \<open>if\<close>
  statements on \<open>model_name\<close>, one after the other, each assigning \<open>run_model_cmds\<close>.
  The variable stays unassigned, \<open>None\<close> here, when none applies. Adjacent string
  literals without a comma between them are one string; they are written with \<open>@\<close>
  where the source has them.
\<close>

definition assign_run_model_cmds ::
  "xlml_constants \<Rightarrow> pyval \<Rightarrow> pyval \<Rightarrow> pyval \<Rightarrow> error + string list option" where
  "assign_run_model_cmds c model_name per_device_bat_size attention =
      py_bind
        (if model_name = PStr ''SDXL-Base-1.0'' then
           py_bind (py_str per_device_bat_size) (\<lambda>b.
           py_bind (py_str attention) (\<lambda>a.
           Inr (Some
             [''source .env/bin/activate'',
              ''cd maxdiffusion'',
              ''cd ..''
              @ '' python -m src.maxdiffusion.generate_sdxl src/maxdiffusion/configs/base_xl.yml run_name=''
              @ dq @ ''my_run'' @ dq @ '' per_device_batch_size='' @ b
              @ '' attention='' @ dq @ a @ dq @ '' '',
              ''cd ..'',
              ''gsutil cp metrics.json '' @ GCS_OUTPUT c])))
         else Inr None) (\<lambda>run_model_cmds1.
      py_bind
        (if model_name = PStr ''SDXL-Lightning'' then
           py_bind (py_str per_device_bat_size) (\<lambda>b.
           py_bind (py_str attention) (\<lambda>a.
           Inr (Some
             [''source .env/bin/activate'',
              ''cd maxdiffusion'',
              ''cd ..''
              @ '' python -m src.maxdiffusion.generate_sdxl src/maxdiffusion/configs/base_xl.yml run_name=''
              @ dq @ ''my_run'' @ dq @ '' lightning_repo='' @ dq @ ''ByteDance/SDXL-Lightning'' @ dq
              @ '' lightning_ckpt='' @ dq @ ''sdxl_lightning_4step_unet.safetensors'' @ dq
              @ '' per_device_batch_size='' @ b
              @ '' attention='' @ dq @ a @ dq @ '' '',
              ''cd ..'',
              ''gsutil cp metrics.json '' @ GCS_OUTPUT c])))
         else Inr run_model_cmds1) (\<lambda>run_model_cmds2.
        (if model_name = PStr ''SDXL-ControlNet'' then
           py_bind (py_str per_device_bat_size) (\<lambda>b.
           py_bind (py_str attention) (\<lambda>a.
           Inr (Some
             [''source .env/bin/activate'',
              ''cd maxdiffusion'',
              ''cd ..''
              @ '' python src/maxdiffusion/controlnet/generate_controlnet_sdxl_replicated.py per_device_batch_size=''
              @ b @ '' attention='' @ dq @ a @ dq @ '' '',
              ''cd ..'',
              ''gsutil cp metrics.json '' @ GCS_OUTPUT c])))
         else Inr run_model_cmds2)))"

text \<open>
  \<open>get_maxdiffusion_inference_nightly_config\<close>. The call of \<open>TpuVmTest\<close> evaluates
  its arguments in the order they are written, and is then checked against the fields of
  the class: it passes the keywords \<open>timeout\<close> and \<open>gcs_subfolder\<close>. The parameter
  \<open>test_mode\<close> is not used by the body.
\<close>

definition get_maxdiffusion_inference_nightly_config ::
  "xlml_constants \<Rightarrow> TpuVersion \<Rightarrow> int \<Rightarrow> string \<Rightarrow> int \<Rightarrow> string \<Rightarrow> SetupMode \<Rightarrow> string \<Rightarrow> string
   \<Rightarrow> string \<Rightarrow> string \<Rightarrow> bool \<Rightarrow> int \<Rightarrow> dict \<Rightarrow> error + TpuQueuedResourceTask" where
  "get_maxdiffusion_inference_nightly_config c tpu_version tpu_cores tpu_zone time_out_in_min'
       test_name' test_mode project_name' runtime_version' network' subnetwork'
       is_tpu_reserved num_slices' model_configs =
     (let job_gcp_config =
            \<lparr> project_name = project_name', zone = tpu_zone, dataset_name = BENCHMARK_DATASET \<rparr>
      in
      py_bind (dict_get model_configs ''per_device_batch_size'') (\<lambda>per_device_bat_size.
      py_bind (dict_get model_configs ''attention'') (\<lambda>attention.
      py_bind (dict_get model_configs ''model_name'') (\<lambda>model_name.
      let set_up_cmds' =
            [''pip install --upgrade pip'',
             ''git clone https://github.com/google/maxdiffusion.git''
             @ ''sudo apt-get -y update'',
             ''sudo apt-get -y install python3.10-venv'',
             ''python -m venv .env'',
             ''source .env/bin/activate'',
             ''cd maxdiffusion'',
             ''pip3 install jax[tpu] -f https://storage.googleapis.com/jax-releases/libtpu_releases.html'',
             ''pip3 install -r requirements.txt'',
             ''pip3 install .'',
             ''apt-get install ffmpeg libsm6 libxext6  -y'' @ ''cd ..'']
      in
      py_bind (assign_run_model_cmds c model_name per_device_bat_size attention)
        (\<lambda>run_model_cmds'.
      py_bind (modify_save_metrics ''metrics.json'' model_configs) (\<lambda>_.
      let tpu = \<lparr> version = tpu_version, cores = PInt tpu_cores,
                  runtime_version = PStr runtime_version', network = network',
                  subnetwork = subnetwork', reserved = is_tpu_reserved \<rparr>
      in
      py_bind (py_local ''run_model_cmds'' run_model_cmds') (\<lambda>cmds.
      py_bind (timedelta_minutes time_out_in_min') (\<lambda>timeout.
      py_bind
        (if unexpected_keywords TpuVmTest_fields
              [''test_name'', ''set_up_cmds'', ''run_model_cmds'', ''timeout'', ''task_owner'',
               ''num_slices'', ''gcs_subfolder''] = []
         then Inr \<lparr> accelerator = tpu, time_out_in_min = PNone, task_owner = VIJAYA_S c,
                    test_name = test_name', set_up_cmds = set_up_cmds', run_model_cmds = cmds,
                    num_slices = num_slices', use_startup_script = False \<rparr>
         else Inl TypeError) (\<lambda>job_test_config.
      let job_metric_config =
            \<lparr> json_lines = \<lparr> file_location = ''metrics.json'' \<rparr>,
              use_runtime_generated_gcs_folder = True \<rparr>
      in
      Inr \<lparr> task_test_config = job_test_config,
            task_gcp_config = job_gcp_config,
            task_metric_config = job_metric_config \<rparr>)))))))))"

section \<open>dags/inference/mor\_jetstream\_benchmark\_serving.py\<close>

subsection \<open>The Python operations the module uses\<close>

text \<open>Iteration: over a list or tuple, the characters of a string, the keys of a dict.\<close>

fun py_iter :: "pyval \<Rightarrow> error + pyval list" where
  "py_iter (PList xs) = Inr xs"
| "py_iter (PTuple xs) = Inr xs"
| "py_iter (PStr s) = Inr (map (\<lambda>c. PStr [c]) s)"
| "py_iter (PDict d) = Inr (map (\<lambda>kv. PStr (fst kv)) d)"
| "py_iter _ = Inl TypeError"

text \<open>Unpacking into two and into three targets: a wrong count is \<open>ValueError\<close>.\<close>

definition py_unpack2 :: "pyval \<Rightarrow> error + (pyval \<times> pyval)" where
  "py_unpack2 v = py_bind (py_iter v) (\<lambda>xs. case xs of [a, b] \<Rightarrow> Inr (a, b) | _ \<Rightarrow> Inl ValueError)"

definition py_unpack3 :: "pyval \<Rightarrow> error + (pyval \<times> pyval \<times> pyval)" where
  "py_unpack3 v =
     py_bind (py_iter v) (\<lambda>xs. case xs of [a, b, c] \<Rightarrow> Inr (a, b, c) | _ \<Rightarrow> Inl ValueError)"

text \<open>
  \<open>s.split(sep)\<close> for a separator of one character. The result is never empty, so the
  second case of the inner \<open>case\<close> does not occur. Only a string has the method.
\<close>

fun split_on :: "char \<Rightarrow> string \<Rightarrow> string list" where
  "split_on sep [] = ['''']"
| "split_on sep (c # cs) =
     (if c = sep then [] # split_on sep cs
      else case split_on sep cs of w # ws \<Rightarrow> (c # w) # ws | [] \<Rightarrow> [c # []])"

fun py_split_dash :: "pyval \<Rightarrow> error + string list" where
  "py_split_dash (PStr s) = Inr (split_on (CHR ''-'') s)"
| "py_split_dash _ = Inl AttributeError"

text \<open>\<open>'',''.join(s)\<close> on a string joins its characters.\<close>

definition join_chars :: "string \<Rightarrow> string" where
  "join_chars s = py_join '','' (map (\<lambda>c. [c]) s)"

text \<open>
  \<open>v[:4]\<close>: a string, list or tuple can be sliced. Slicing a dict raises \<open>TypeError\<close>
  up to Python 3.11 and \<open>KeyError\<close> from 3.12 on; the model has the former.
\<close>

fun py_slice4 :: "pyval \<Rightarrow> error + pyval" where
  "py_slice4 (PStr s) = Inr (PStr (take 4 s))"
| "py_slice4 (PList xs) = Inr (PList (take 4 xs))"
| "py_slice4 (PTuple xs) = Inr (PTuple (take 4 xs))"
| "py_slice4 _ = Inl TypeError"

text \<open>The truth value of \<open>if v:\<close>.\<close>

fun py_truthy :: "pyval \<Rightarrow> error + bool" where
  "py_truthy PNone = Inr False"
| "py_truthy (PBool b) = Inr b"
| "py_truthy (PInt i) = Inr (i \<noteq> 0)"
| "py_truthy (PFloat r) = Inr (r \<noteq> ''0.0'' \<and> r \<noteq> ''-0.0'')"
| "py_truthy (PStr s) = Inr (s \<noteq> [])"
| "py_truthy (PList xs) = Inr (xs \<noteq> [])"
| "py_truthy (PTuple xs) = Inr (xs \<noteq> [])"
| "py_truthy (PDict d) = Inr (d \<noteq> [])"
| "py_truthy (PTpuVersion v) = Inr True"

text \<open>\<open>a | b\<close> on values: defined for two dicts.\<close>

fun py_or :: "pyval \<Rightarrow> pyval \<Rightarrow> error + pyval" where
  "py_or (PDict a) (PDict b) = Inr (PDict (dict_or a b))"
| "py_or _ _ = Inl TypeError"

text \<open>
  A \<open>for\<close> loop whose body updates a state \<open>s\<close>; an exception in the body ends the
  loop. \<open>py_for\<close> evaluates the iterable first.
\<close>

fun for_each :: "'a list \<Rightarrow> ('a \<Rightarrow> 's \<Rightarrow> error + 's) \<Rightarrow> 's \<Rightarrow> error + 's" where
  "for_each [] body s = Inr s"
| "for_each (x # xs) body s = py_bind (body x s) (for_each xs body)"

definition py_for :: "error + pyval \<Rightarrow> (pyval \<Rightarrow> 's \<Rightarrow> error + 's) \<Rightarrow> 's \<Rightarrow> error + 's" where
  "py_for iterable body s =
     py_bind iterable (\<lambda>v. py_bind (py_iter v) (\<lambda>xs. for_each xs body s))"

subsection \<open>\<open>generate_model_configs\<close>\<close>

text \<open>
  \<open>mor_jetstream_benchmark_serving_gce_config.config\<close> is not among the sources. It is
  the parameter \<open>config\<close>, a function from its keyword arguments to a task or an
  exception; the keyword arguments are the record \<open>config_kwargs\<close>.
\<close>

record config_kwargs =
  kw_tpu_version :: pyval
  kw_tpu_cores :: pyval
  kw_tpu_zone :: string
  kw_time_out_in_min :: pyval
  kw_test_name :: string
  kw_test_mode :: SetupMode
  kw_project_name :: string
  kw_runtime_version :: string
  kw_network :: string
  kw_subnetwork :: string
  kw_is_tpu_reserved :: bool
  kw_model_configs :: dict
  kw_maxtext_branch :: pyval
  kw_jetstream_branch :: pyval

text \<open>Lines 81 to 100: \<open>model_configs[k] = sweep_model_configs[k]\<close> for each key in turn.\<close>

fun copy_keys :: "pyval \<Rightarrow> string list \<Rightarrow> dict \<Rightarrow> error + dict" where
  "copy_keys sweep [] model_configs = Inr model_configs"
| "copy_keys sweep (k # ks) model_configs =
     py_bind (py_getitem sweep k) (\<lambda>v. copy_keys sweep ks (dict_set model_configs k v))"

definition copied_keys :: "string list" where
  "copied_keys =
     [''maxtext_branch'', ''jetstream_branch'',
      ''model_name'', ''model_mode'', ''quant_mode'', ''sleep_time'', ''tokenizer'',
      ''weight_dtype'', ''scan_layers'', ''max_prefill_predict_length'', ''max_target_length'',
      ''max_output_length'',
      ''checkpoint'', ''quantization'', ''quantize_kvcache'', ''dataset'', ''num_prompts'',
      ''run_eval'']"

text \<open>Lines 58 to 100: the dict \<open>model_configs\<close>.\<close>

definition build_model_configs ::
  "string \<Rightarrow> pyval \<Rightarrow> pyval \<Rightarrow> pyval \<Rightarrow> pyval \<Rightarrow> pyval \<Rightarrow> pyval \<Rightarrow> pyval \<Rightarrow> error + dict" where
  "build_model_configs model_config_name sweep_model_configs axis_order attention
       ici_parallelism per_device_batch_size request_rate warmup_mode =
     (let m0 = dict_set [] ''model_config_name'' (PStr model_config_name);
          m1 = dict_set m0 ''attention'' attention
      in
      py_bind (py_unpack3 ici_parallelism) (\<lambda>(fsdp, autoregressive, tensor).
      let m2 = dict_set m1 ''ici_fsdp_parallelism'' fsdp;
          m3 = dict_set m2 ''ici_autoregressive_parallelism'' autoregressive;
          m4 = dict_set m3 ''ici_tensor_parallelism'' tensor
      in
      py_bind (py_split_dash axis_order) (\<lambda>parts.
      case parts of
        [prefill, ar] \<Rightarrow>
          (let prefill_axis_order = join_chars prefill;
               ar_axis_order = join_chars ar;
               m5 = dict_set m4 ''prefill_key_axis_order'' (PStr prefill_axis_order);
               m6 = dict_set m5 ''prefill_value_axis_order'' (PStr prefill_axis_order);
               m7 = dict_set m6 ''ar_key_axis_order'' (PStr ar_axis_order);
               m8 = dict_set m7 ''ar_value_axis_order'' (PStr ar_axis_order);
               m9 = dict_set m8 ''per_device_batch_size'' per_device_batch_size;
               m10 = dict_set m9 ''request_rate'' request_rate;
               m11 = dict_set m10 ''warmup_mode'' warmup_mode
           in copy_keys sweep_model_configs copied_keys m11)
      | _ \<Rightarrow> Inl ValueError)))"

text \<open>Lines 102 to 107: the name of the test.\<close>

definition build_test_name ::
  "string \<Rightarrow> string \<Rightarrow> pyval \<Rightarrow> pyval \<Rightarrow> pyval \<Rightarrow> pyval \<Rightarrow> error + string" where
  "build_test_name test_name_prefix model_config_name sweep_model_configs axis_order
       per_device_batch_size attention =
     py_bind (py_str axis_order) (\<lambda>ao.
     py_bind (py_str per_device_batch_size) (\<lambda>bs.
     py_bind (py_slice4 attention) (\<lambda>att4.
     py_bind (py_str att4) (\<lambda>att.
     let test_run_tag = model_config_name @ ''-'' @ ao @ ''-bs'' @ bs @ ''-'' @ att in
     py_bind (py_getitem sweep_model_configs ''run_prefix'') (\<lambda>run_prefix.
     py_bind (py_truthy run_prefix) (\<lambda>truthy.
     py_bind (if truthy
              then py_bind (py_str run_prefix) (\<lambda>rp. Inr (test_name_prefix @ ''-'' @ rp))
              else Inr test_name_prefix) (\<lambda>test_name_prefix'.
     Inr (test_name_prefix' @ ''-'' @ test_run_tag))))))))"

text \<open>
  \<open>generate_model_configs\<close>. The five locals of the \<open>if\<close> on line 109 are assigned
  in that branch only, so each is an option, and the call on line 117 reads them in the
  order of its keyword arguments.
\<close>

definition generate_model_configs ::
  "(config_kwargs \<Rightarrow> error + 'task) \<Rightarrow> string \<Rightarrow> string \<Rightarrow> pyval \<Rightarrow> pyval \<Rightarrow> pyval \<Rightarrow> pyval
   \<Rightarrow> pyval \<Rightarrow> pyval \<Rightarrow> pyval \<Rightarrow> pyval \<Rightarrow> pyval \<Rightarrow> error + 'task" where
  "generate_model_configs config test_name_prefix model_config_name sweep_model_configs
       axis_order attention ici_parallelism per_device_batch_size request_rate warmup_mode
       tpu_version tpu_cores =
     py_bind (build_model_configs model_config_name sweep_model_configs axis_order attention
                ici_parallelism per_device_batch_size request_rate warmup_mode) (\<lambda>model_configs.
     py_bind (build_test_name test_name_prefix model_config_name sweep_model_configs axis_order
                per_device_batch_size attention) (\<lambda>test_name'.
     let v5e = (tpu_version = PTpuVersion V5E);
         project_name' = (if v5e then Some (Project_value TPU_PROD_ENV_AUTOMATED) else None);
         zone' = (if v5e then Some (Zone_value US_EAST1_C) else None);
         network' = (if v5e then Some V5_NETWORKS else None);
         subnetwork' = (if v5e then Some V5E_SUBNETWORKS else None);
         runtime_version' = (if v5e then Some (RuntimeVersion_value V2_ALPHA_TPUV5_LITE) else None)
     in
     py_bind (py_local ''zone'' zone') (\<lambda>z.
     py_bind (py_getitem sweep_model_configs ''time_out_in_min'') (\<lambda>timeout.
     py_bind (py_local ''project_name'' project_name') (\<lambda>p.
     py_bind (py_local ''runtime_version'' runtime_version') (\<lambda>r.
     py_bind (py_local ''network'' network') (\<lambda>n.
     py_bind (py_local ''subnetwork'' subnetwork') (\<lambda>sn.
     py_bind (dict_get model_configs ''maxtext_branch'') (\<lambda>maxtext_branch.
     py_bind (dict_get model_configs ''jetstream_branch'') (\<lambda>jetstream_branch.
     config \<lparr> kw_tpu_version = tpu_version,
              kw_tpu_cores = tpu_cores,
              kw_tpu_zone = z,
              kw_time_out_in_min = timeout,
              kw_test_name = test_name',
              kw_test_mode = STABLE,
              kw_project_name = p,
              kw_runtime_version = r,
              kw_network = n,
              kw_subnetwork = sn,
              kw_is_tpu_reserved = True,
              kw_model_configs = model_configs,
              kw_maxtext_branch = maxtext_branch,
              kw_jetstream_branch = jetstream_branch \<rparr>))))))))))"

subsection \<open>The DAG\<close>

definition LLAMA2_7B :: string where "LLAMA2_7B = ''llama2-7b''"
definition LLAMA2_13B :: string where "LLAMA2_13B = ''llama2-13b''"
definition BASE_MODE :: string where "BASE_MODE = ''base''"
definition CHAT_MODE :: string where "CHAT_MODE = ''chat''"
definition W_BF16_KV_BF16 :: string where "W_BF16_KV_BF16 = ''w-b16-kv-b16''"
definition W_BF16_KV_INT8 :: string where "W_BF16_KV_INT8 = ''w-b16-kv-i8''"
definition W_INT8_KV_INT8 :: string where "W_INT8_KV_INT8 = ''w-i8-kv-i8''"

definition CKPT :: pyval where
  "CKPT = PDict
     [(LLAMA2_7B, PDict
        [(BASE_MODE, PStr ''gs://inference-benchmarks/models/llama2-7b/2024-04-25-14-01/param-only-decode-ckpt-maxtext/checkpoints/0/items''),
         (CHAT_MODE, PStr ''gs://inference-benchmarks/models/llama2-7b-chat/2024-05-24-12-39/param-only-decode-ckpt-maxtext/checkpoints/0/items'')]),
      (LLAMA2_13B, PDict
        [(BASE_MODE, PStr ''gs://inference-benchmarks/models/llama2-13b/2024-04-25-14-01/param-only-decode-ckpt-maxtext/checkpoints/0/items''),
         (CHAT_MODE, PStr ''gs://inference-benchmarks/models/llama2-13b-chat/2024-05-24-12-39/param-only-decode-ckpt-maxtext/checkpoints/0/items'')])]"

definition test_name_prefix :: string where
  "test_name_prefix = ''mor-max-js''"

definition test_templates :: pyval where
  "test_templates = PDict
     [(LLAMA2_7B, PDict
        [(''maxtext_branch'', PStr ''-b jetstream-v0.2.2''),
         (''run_prefix'', PNone),
         (''jetstream_branch'', PStr ''''),
         (''sleep_time'', PInt 120),
         (''time_out_in_min'', PInt 60),
         (''tpu_version_cores'', PList [PTuple [PTpuVersion V5E, PInt 8]]),
         (''model_name'', PStr LLAMA2_7B),
         (''tokenizer'', PStr ''tokenizer.llama2''),
         (''weight_dtype'', PStr ''bfloat16''),
         (''scan_layers'', PStr ''false''),
         (''max_prefill_predict_length'', PInt 1024),
         (''max_target_length'', PInt 2048),
         (''attention'', PList [PStr ''autoselected'']),
         (''ici_parallelisms'', PList [PTuple [PInt 1, PInt 1, PInt (- 1)]]),
         (''dataset'', PStr ''openorca''),
         (''request_rate'', PList [PFloat ''0.0'']),
         (''num_prompts'', PInt 1000),
         (''warmup_mode'', PList [PStr ''full'']),
         (''max_output_length'', PInt 1024)]),
      (LLAMA2_7B @ ''-'' @ W_BF16_KV_BF16 @ ''-axis-order'', PDict
        [(''axis_order'', PList [PStr ''2103-2013'', PStr ''2013-2013'', PStr ''2130-2013''])]),
      (LLAMA2_7B @ ''-'' @ W_BF16_KV_INT8 @ ''-axis-order'', PDict
        [(''axis_order'', PList [PStr ''2031-2031'', PStr ''0231-0231'', PStr ''0231-2031''])]),
      (LLAMA2_7B @ ''-'' @ W_INT8_KV_INT8 @ ''-axis-order'', PDict
        [(''axis_order'', PList [PStr ''0231-2130'', PStr ''0231-2103'', PStr ''0231-0231''])])]"

text \<open>
  The six entries of \<open>tests\<close> have one shape,
  \<open>test_templates[LLAMA2_7B] | test_templates[f"{LLAMA2_7B}-{quant}-axis-order"] | {...}\<close>
  under the key \<open>f"{LLAMA2_7B}-{mode}-{quant}"\<close>; \<open>tests_entry\<close> is that shape.
\<close>

definition tests_entry ::
  "string \<Rightarrow> string \<Rightarrow> string \<Rightarrow> string \<Rightarrow> int \<Rightarrow> bool \<Rightarrow> error + (string \<times> pyval)" where
  "tests_entry mode quant quantization quantize_kvcache per_device_batch_size run_eval =
     py_bind (py_getitem test_templates LLAMA2_7B) (\<lambda>template.
     py_bind (py_getitem test_templates (LLAMA2_7B @ ''-'' @ quant @ ''-axis-order'')) (\<lambda>axis.
     py_bind (py_or template axis) (\<lambda>merged.
     py_bind (py_getitem CKPT LLAMA2_7B) (\<lambda>ckpts.
     py_bind (py_getitem ckpts mode) (\<lambda>checkpoint.
     py_bind (py_or merged (PDict
        [(''checkpoint'', checkpoint),
         (''model_mode'', PStr mode),
         (''quant_mode'', PStr quant),
         (''quantization'', PStr quantization),
         (''quantize_kvcache'', PStr quantize_kvcache),
         (''per_device_batch_sizes'', PList [PInt per_device_batch_size]),
         (''run_eval'', PBool run_eval)])) (\<lambda>entry.
     Inr (LLAMA2_7B @ ''-'' @ mode @ ''-'' @ quant, entry)))))))"

fun collect :: "(error + 'a) list \<Rightarrow> error + 'a list" where
  "collect [] = Inr []"
| "collect (m # ms) = py_bind m (\<lambda>x. py_bind (collect ms) (\<lambda>xs. Inr (x # xs)))"

definition tests :: "error + dict" where
  "tests =
     py_bind (collect
       [tests_entry BASE_MODE W_BF16_KV_BF16 '''' ''false'' 10 False,
        tests_entry BASE_MODE W_BF16_KV_INT8 '''' ''true'' 24 False,
        tests_entry BASE_MODE W_INT8_KV_INT8 ''int8'' ''true'' 24 False,
        tests_entry CHAT_MODE W_BF16_KV_BF16 '''' ''false'' 10 True,
        tests_entry CHAT_MODE W_BF16_KV_INT8 '''' ''true'' 24 True,
        tests_entry CHAT_MODE W_INT8_KV_INT8 ''int8'' ''true'' 24 True])
       (\<lambda>entries. Inr (dict_or [] entries))"

definition run_configs :: "string list" where
  "run_configs =
     [LLAMA2_7B @ ''-'' @ BASE_MODE @ ''-'' @ W_BF16_KV_BF16,
      LLAMA2_7B @ ''-'' @ BASE_MODE @ ''-'' @ W_BF16_KV_INT8,
      LLAMA2_7B @ ''-'' @ CHAT_MODE @ ''-'' @ W_INT8_KV_INT8,
      LLAMA2_7B @ ''-'' @ CHAT_MODE @ ''-'' @ W_BF16_KV_BF16,
      LLAMA2_7B @ ''-'' @ CHAT_MODE @ ''-'' @ W_BF16_KV_INT8,
      LLAMA2_7B @ ''-'' @ BASE_MODE @ ''-'' @ W_INT8_KV_INT8]"

definition skip_configs :: "string list" where
  "skip_configs = []"

text \<open>
  The loop of lines 264 to 291. Its state is the list of the tasks built so far: each
  call of \<open>generate_model_configs\<close> that returns adds its task.
\<close>

definition sweep_nest ::
  "(config_kwargs \<Rightarrow> error + 'task) \<Rightarrow> string \<Rightarrow> pyval \<Rightarrow> 'task list \<Rightarrow> error + 'task list" where
  "sweep_nest config model_config_name sweep_model_configs =
     py_for (py_getitem sweep_model_configs ''tpu_version_cores'') (\<lambda>tvc s.
       py_bind (py_unpack2 tvc) (\<lambda>(tpu_version, tpu_cores).
       py_for (py_getitem sweep_model_configs ''axis_order'') (\<lambda>axis_order.
       py_for (py_getitem sweep_model_configs ''attention'') (\<lambda>attention.
       py_for (py_getitem sweep_model_configs ''ici_parallelisms'') (\<lambda>ici_parallelism.
       py_for (py_getitem sweep_model_configs ''per_device_batch_sizes'') (\<lambda>per_device_batch_size.
       py_for (py_getitem sweep_model_configs ''request_rate'') (\<lambda>request_rate.
       py_for (py_getitem sweep_model_configs ''warmup_mode'') (\<lambda>warmup_mode tasks.
         py_bind (generate_model_configs config test_name_prefix model_config_name
                    sweep_model_configs axis_order attention ici_parallelism
                    per_device_batch_size request_rate warmup_mode tpu_version tpu_cores)
           (\<lambda>task. Inr (tasks @ [task])))))))) s))"

definition dag_loop ::
  "(config_kwargs \<Rightarrow> error + 'task) \<Rightarrow> dict \<Rightarrow> 'task list \<Rightarrow> error + 'task list" where
  "dag_loop config tests' =
     for_each tests' (\<lambda>(model_config_name, sweep_model_configs) tasks.
       if run_configs \<noteq> [] \<and> model_config_name \<notin> set run_configs then Inr tasks
       else if skip_configs \<noteq> [] \<and> model_config_name \<in> set skip_configs then Inr tasks
       else sweep_nest config model_config_name sweep_model_configs tasks)"

definition dag :: "(config_kwargs \<Rightarrow> error + 'task) \<Rightarrow> error + 'task list" where
  "dag config = py_bind tests (\<lambda>tests'. dag_loop config tests' [])"

section \<open>The specification's notions\<close>

text \<open>
  The join of a sequence of strings with a separator, said without recursion: the first
  string, and then every further string with the separator in front of it.
\<close>

definition joined :: "string \<Rightarrow> string list \<Rightarrow> string" where
  "joined sep xs = (case xs of [] \<Rightarrow> [] | x # rest \<Rightarrow> x @ concat (map (\<lambda>y. sep @ y) rest))"

text \<open>
  How a shell reads the start-up script. A word in single quotes runs from the quote to
  the next one, so the argument of \<open>bash -c\<close> is the text between the first two
  single quotes of the script. The commands of that argument are its lines, and the
  stages of a pipeline are the parts of its line between the bars.
\<close>

definition bash_c_argument :: "string \<Rightarrow> string" where
  "bash_c_argument s =
     takeWhile (\<lambda>c. c \<noteq> CHR 0x27) (drop 1 (dropWhile (\<lambda>c. c \<noteq> CHR 0x27) s))"

definition script_lines :: "string \<Rightarrow> string list" where
  "script_lines s = split_on (CHR 0x0A) s"

definition pipeline_stages :: "string \<Rightarrow> string list" where
  "pipeline_stages line = split_on (CHR ''|'') line"

text \<open>
  The calendar dates that \<open>today()\<close> can return with a year of four digits.
\<close>

definition valid_date :: "date \<Rightarrow> bool" where
  "valid_date d =
     (1000 \<le> year d \<and> year d \<le> 9999 \<and> 1 \<le> month d \<and> month d \<le> 12 \<and> 1 \<le> day d \<and> day d \<le> 31)"

text \<open>
  The dict \<open>tests\<close> of the DAG and the configuration \<open>tests[name]\<close>. For a
  configuration, \<open>sweep_list\<close> is the list that a \<open>for\<close> loop over one of its entries
  runs through, and \<open>sweep_points\<close> is the Cartesian product of the seven sweep lists,
  as a set. \<open>task_for\<close> is the call that the innermost loop body makes at one element
  of the product.
\<close>

definition tests_dict :: dict where
  "tests_dict = (case tests of Inr d \<Rightarrow> d | Inl e \<Rightarrow> [])"

definition configuration :: "string \<Rightarrow> pyval" where
  "configuration name = (case dict_get tests_dict name of Inr sweep \<Rightarrow> sweep | Inl e \<Rightarrow> PNone)"

definition sweep_list :: "pyval \<Rightarrow> string \<Rightarrow> pyval list" where
  "sweep_list sweep k =
     (case py_getitem sweep k of
        Inr v \<Rightarrow> (case py_iter v of Inr xs \<Rightarrow> xs | Inl e \<Rightarrow> [])
      | Inl e \<Rightarrow> [])"

type_synonym sweep_point = "pyval \<times> pyval \<times> pyval \<times> pyval \<times> pyval \<times> pyval \<times> pyval"

definition sweep_points :: "pyval \<Rightarrow> sweep_point set" where
  "sweep_points sweep =
     set (sweep_list sweep ''tpu_version_cores'')
     \<times> set (sweep_list sweep ''axis_order'')
     \<times> set (sweep_list sweep ''attention'')
     \<times> set (sweep_list sweep ''ici_parallelisms'')
     \<times> set (sweep_list sweep ''per_device_batch_sizes'')
     \<times> set (sweep_list sweep ''request_rate'')
     \<times> set (sweep_list sweep ''warmup_mode'')"

definition task_for ::
  "(config_kwargs \<Rightarrow> error + 'task) \<Rightarrow> string \<Rightarrow> pyval \<Rightarrow> sweep_point \<Rightarrow> error + 'task" where
  "task_for config name sweep p =
     (case p of (tvc, axis_order, attention, ici_parallelism, per_device_batch_size,
                 request_rate, warmup_mode) \<Rightarrow>
        py_bind (py_unpack2 tvc) (\<lambda>(tpu_version, tpu_cores).
          generate_model_configs config test_name_prefix name sweep axis_order attention
            ici_parallelism per_device_batch_size request_rate warmup_mode
            tpu_version tpu_cores))"

text \<open>
  The same product as a list, in the order of the nested \<open>for\<close> statements, and the
  conditions under which these run through it for a configuration: each of the seven entries
  is there and can be iterated, and each element of \<open>tpu_version_cores\<close> unpacks into
  two.
\<close>

definition points_list :: "pyval \<Rightarrow> sweep_point list" where
  "points_list sweep =
     List.product (sweep_list sweep ''tpu_version_cores'')
      (List.product (sweep_list sweep ''axis_order'')
       (List.product (sweep_list sweep ''attention'')
        (List.product (sweep_list sweep ''ici_parallelisms'')
         (List.product (sweep_list sweep ''per_device_batch_sizes'')
          (List.product (sweep_list sweep ''request_rate'')
            (sweep_list sweep ''warmup_mode''))))))"

definition iterable_key :: "pyval \<Rightarrow> string \<Rightarrow> bool" where
  "iterable_key sweep k =
     (case py_getitem sweep k of
        Inr v \<Rightarrow> (case py_iter v of Inr xs \<Rightarrow> True | Inl e \<Rightarrow> False)
      | Inl e \<Rightarrow> False)"

definition sweep_ok :: "pyval \<Rightarrow> bool" where
  "sweep_ok sweep =
     (list_all (iterable_key sweep)
        [''tpu_version_cores'', ''axis_order'', ''attention'', ''ici_parallelisms'',
         ''per_device_batch_sizes'', ''request_rate'', ''warmup_mode'']
      \<and> list_all (\<lambda>tvc. \<not> isl (py_unpack2 tvc)) (sweep_list sweep ''tpu_version_cores''))"

definition selected :: "string \<Rightarrow> bool" where
  "selected name =
     (\<not> (run_configs \<noteq> [] \<and> name \<notin> set run_configs)
      \<and> \<not> (skip_configs \<noteq> [] \<and> name \<in> set skip_configs))"

definition dag_points :: "(string \<times> sweep_point) list" where
  "dag_points =
     concat (map (\<lambda>name. map (Pair name) (points_list (configuration name)))
               (filter selected (map fst tests_dict)))"

section \<open>Example inputs\<close>

text \<open>Concrete inputs at which the theorems below are instantiated.\<close>

definition example_tpu :: Tpu where
  "example_tpu = \<lparr> version = V4, cores = PInt 8, runtime_version = PNone,
                   network = ''default'', subnetwork = ''default'', reserved = False \<rparr>"

definition example_vm_test :: "bool \<Rightarrow> TpuVmTest" where
  "example_vm_test use =
     \<lparr> accelerator = example_tpu, time_out_in_min = PInt 60, task_owner = ''unowned'',
       test_name = ''example'', set_up_cmds = [''pip install jax'', ''cd model''],
       run_model_cmds = [''python3 train.py''], num_slices = 1, use_startup_script = use \<rparr>"

text \<open>The same test with a command that fails: \<open>exit 7\<close> ends with status 7.\<close>

definition example_exit_test :: TpuVmTest where
  "example_exit_test = (example_vm_test True)\<lparr>run_model_cmds := [''exit 7'']\<rparr>"

definition example_jsonnet :: "int \<Rightarrow> pyval" where
  "example_jsonnet timeout = PDict
     [(''testName'', PStr ''pt-nightly-mnist-pjrt-func-v2-8-1vm''),
      (''accelerator'', PDict [(''version'', PInt 2), (''size'', PInt 8)]),
      (''tpuSettings'', PDict [(''softwareVersion'', PStr ''tpu-ubuntu2204-base'')]),
      (''timeout'', PInt timeout)]"

definition example_constants :: xlml_constants where
  "example_constants = \<lparr> GCS_OUTPUT = ''${GCS_OUTPUT}'', VIJAYA_S = ''owner'' \<rparr>"

definition example_model_configs :: "string \<Rightarrow> dict" where
  "example_model_configs model_name =
     [(''per_device_batch_size'', PInt 2),
      (''attention'', PStr ''flash''),
      (''model_name'', PStr model_name)]"

definition example_sweep :: pyval where
  "example_sweep = PDict
     [(''maxtext_branch'', PStr ''-b jetstream-v0.2.2''),
      (''run_prefix'', PNone),
      (''jetstream_branch'', PStr []),
      (''sleep_time'', PInt 120),
      (''time_out_in_min'', PInt 60),
      (''model_name'', PStr ''llama2-7b''),
      (''tokenizer'', PStr ''tokenizer.llama2''),
      (''weight_dtype'', PStr ''bfloat16''),
      (''scan_layers'', PStr ''false''),
      (''max_prefill_predict_length'', PInt 1024),
      (''max_target_length'', PInt 2048),
      (''dataset'', PStr ''openorca''),
      (''num_prompts'', PInt 1000),
      (''max_output_length'', PInt 1024),
      (''checkpoint'', PStr ''gs://inference-benchmarks/models/llama2-7b/checkpoints/0/items''),
      (''model_mode'', PStr ''base''),
      (''quant_mode'', PStr ''w-b16-kv-b16''),
      (''quantization'', PStr []),
      (''quantize_kvcache'', PStr ''false''),
      (''run_eval'', PBool False)]"

section \<open>Properties of the test configurations\<close>

lemma py_bind_Inr [simp]: "py_bind (Inr x) f = f x"
  by (simp add: py_bind_def)

lemma py_bind_Inl [simp]: "py_bind (Inl e) f = Inl e"
  by (simp add: py_bind_def)

lemma py_bind_eq_Inr:
  "py_bind m f = Inr y \<longleftrightarrow> (\<exists>x. m = Inr x \<and> f x = Inr y)"
  by (cases m) simp_all

lemma py_join_joined: "py_join sep xs = joined sep xs"
proof (induction sep xs rule: py_join.induct)
  case (1 sep)
  show ?case by (simp add: joined_def)
next
  case (2 sep x)
  show ?case by (simp add: joined_def)
next
  case (3 sep x y ys)
  then show ?case by (simp add: joined_def)
qed

text \<open>
  C3. For every \<open>TpuVmTest\<close>, \<open>setup_script\<close> is the newline-join of \<open>set_up_cmds\<close>
  and \<open>test_script\<close> the newline-join of \<open>run_model_cmds\<close>; for every \<open>TpuGkeTest\<close>
  they are the semicolon-joins of the same two fields.
\<close>

theorem scripts_are_joins:
  "TpuVmTest_setup_script t = joined nl (set_up_cmds t)
   \<and> TpuVmTest_test_script t = joined nl (run_model_cmds t)
   \<and> TpuGkeTest_setup_script g = joined '';'' (gke_set_up_cmds g)
   \<and> TpuGkeTest_test_script g = joined '';'' (gke_run_model_cmds g)"
  by (simp add: TpuVmTest_setup_script_def TpuVmTest_test_script_def
      TpuGkeTest_setup_script_def TpuGkeTest_test_script_def py_join_joined)

lemma py_join_snoc: "py_join sep (xs @ [c]) = concat (map (\<lambda>x. x @ sep) xs) @ c"
  by (induction sep xs rule: py_join.induct) simp_all

text \<open>
  C4. For every \<open>TpuVmTest\<close>, \<open>startup_script\<close> is the empty string when
  \<open>use_startup_script\<close> is false. When it is true, the script is a \<open>bash -c\<close>
  wrapper around the newline-join of \<open>set_up_cmds\<close> followed by \<open>run_model_cmds\<close>,
  and it is meant to record the id of the main process, wait for it and write its exit
  status to \<open>/tmp/process_exit_status.txt\<close>: the docstring of
  \<open>TestConfig.test_script\<close> says that the exit code of the script is the test
  result. The text that the code builds does not do that. The suffix
  \<open>2>&1 | tee /tmp/logs &\<close> follows the join, so it belongs to the last command
  alone: every earlier command is a line of its own, run before it with its status
  dropped, and the job put in the background is the pipeline of the last command into
  \<open>tee\<close>. The id that \<open>$!\<close> gives for a pipeline is that of its last stage,
  so the process recorded and waited for is \<open>tee\<close>, and the status written is
  the one of \<open>tee\<close>. For the test whose only run command is \<open>exit 7\<close> the lines
  of the wrapped script and the stages of its third line are as stated; the file
  receives 0 and not 7.
\<close>

theorem startup_script_background_job:
  "TpuVmTest_startup_script (t\<lparr>use_startup_script := False\<rparr>) = []
   \<and> TpuVmTest_startup_script
         (t\<lparr>set_up_cmds := pre, run_model_cmds := front @ [c], use_startup_script := True\<rparr>) =
       nl @ ''bash -c '' @ sq @ concat (map (\<lambda>x. x @ nl) (pre @ front))
       @ c @ '' 2>&1 | tee /tmp/logs &'' @ nl
       @ ''pid=$!'' @ nl
       @ ''echo $pid > /tmp/main_process_id.txt'' @ nl
       @ ''wait $pid'' @ nl
       @ ''exit_status=$?'' @ nl
       @ ''echo $exit_status > /tmp/process_exit_status.txt'' @ sq @ nl
   \<and> script_lines (bash_c_argument (TpuVmTest_startup_script example_exit_test)) =
       [''pip install jax'', ''cd model'', ''exit 7 2>&1 | tee /tmp/logs &'', ''pid=$!'',
        ''echo $pid > /tmp/main_process_id.txt'', ''wait $pid'', ''exit_status=$?'',
        ''echo $exit_status > /tmp/process_exit_status.txt'']
   \<and> pipeline_stages
         (script_lines (bash_c_argument (TpuVmTest_startup_script example_exit_test)) ! 2) =
       [''exit 7 2>&1 '', '' tee /tmp/logs &'']"
proof -
  have lines: "script_lines (bash_c_argument (TpuVmTest_startup_script example_exit_test)) =
       [''pip install jax'', ''cd model'', ''exit 7 2>&1 | tee /tmp/logs &'', ''pid=$!'',
        ''echo $pid > /tmp/main_process_id.txt'', ''wait $pid'', ''exit_status=$?'',
        ''echo $exit_status > /tmp/process_exit_status.txt'']"
    by code_simp
  have stages: "pipeline_stages ''exit 7 2>&1 | tee /tmp/logs &'' =
       [''exit 7 2>&1 '', '' tee /tmp/logs &'']"
    by code_simp
  have general: "TpuVmTest_startup_script
         (t\<lparr>set_up_cmds := pre, run_model_cmds := front @ [c], use_startup_script := True\<rparr>) =
       nl @ ''bash -c '' @ sq @ concat (map (\<lambda>x. x @ nl) (pre @ front))
       @ c @ '' 2>&1 | tee /tmp/logs &'' @ nl
       @ ''pid=$!'' @ nl
       @ ''echo $pid > /tmp/main_process_id.txt'' @ nl
       @ ''wait $pid'' @ nl
       @ ''exit_status=$?'' @ nl
       @ ''echo $exit_status > /tmp/process_exit_status.txt'' @ sq @ nl"
    using py_join_snoc [of nl "pre @ front" c]
    by (simp add: TpuVmTest_startup_script_def)
  have off: "TpuVmTest_startup_script (t\<lparr>use_startup_script := False\<rparr>) = []"
    by (simp add: TpuVmTest_startup_script_def)
  from off general lines stages show ?thesis
    by simp
qed

text \<open>
  C9. For every \<open>JSonnetTpuVmTest\<close>, \<open>startup_script\<close> is \<open>None\<close> and not a
  string, whereas \<open>TpuVmTest.startup_script\<close> is the empty string when
  \<open>use_startup_script\<close> is false.
\<close>

theorem jsonnet_startup_script_is_None:
  "JSonnetTpuVmTest_startup_script j = None
   \<and> JSonnetTpuVmTest_startup_script j \<noteq> Some (TpuVmTest_startup_script (t\<lparr>use_startup_script := False\<rparr>))
   \<and> TpuVmTest_startup_script (t\<lparr>use_startup_script := False\<rparr>) = []"
  by (simp add: JSonnetTpuVmTest_startup_script_def TpuVmTest_startup_script_def)

lemma from_json_helper_time_out:
  assumes "from_json_helper test s e cmd r = Inr t"
  shows "\<exists>timeout. py_getitem test ''timeout'' = Inr timeout
           \<and> py_floordiv_60 timeout = Inr (time_out_in_min t)"
  using assms unfolding from_json_helper_def
  by (auto simp: py_bind_eq_Inr)

text \<open>
  C10. For every compiled test that \<open>_from_json_helper\<close> parses, \<open>time_out_in_min\<close>
  is the \<open>timeout\<close> field of the JSON, in seconds, floor-divided by 60; so a timeout
  under 60 seconds gives 0 minutes.
\<close>

theorem from_json_helper_timeout_floor:
  assumes "py_getitem test ''timeout'' = Inr (PInt n)"
    and "from_json_helper test s e cmd r = Inr t"
  shows "time_out_in_min t = PInt (n div 60)
         \<and> (0 \<le> n \<and> n < 60 \<longrightarrow> time_out_in_min t = PInt 0)"
proof -
  from from_json_helper_time_out [OF assms(2)] assms(1)
  have "py_floordiv_60 (PInt n) = Inr (time_out_in_min t)"
    by auto
  then have "time_out_in_min t = PInt (n div 60)"
    by simp
  then show ?thesis
    by simp
qed

theorem from_json_helper_timeout_floor_witness:
  "py_getitem (example_jsonnet 59) ''timeout'' = Inr (PInt 59)
   \<and> (\<exists>t. from_json_helper (example_jsonnet 59) ''s'' ''e'' [''python3'', ''train.py''] True = Inr t
          \<and> time_out_in_min t = PInt 0)
   \<and> (\<exists>t. from_json_helper (example_jsonnet 3725) ''s'' ''e'' [''python3'', ''train.py''] True = Inr t
          \<and> time_out_in_min t = PInt 62)"
proof -
  have g: "py_getitem (example_jsonnet k) ''timeout'' = Inr (PInt k)" for k
    by (simp add: example_jsonnet_def dict_get_def)
  have r: "\<exists>t. from_json_helper (example_jsonnet k) ''s'' ''e'' [''python3'', ''train.py''] True = Inr t" for k
    by (simp add: from_json_helper_def example_jsonnet_def dict_get_def TpuVersion_call_def str_int_def str_nat.simps)
  from r [of 59] obtain t where t: "from_json_helper (example_jsonnet 59) ''s'' ''e'' [''python3'', ''train.py''] True = Inr t" ..
  from r [of 3725] obtain u where u: "from_json_helper (example_jsonnet 3725) ''s'' ''e'' [''python3'', ''train.py''] True = Inr u" ..
  from from_json_helper_timeout_floor [OF g t] have "time_out_in_min t = PInt 0" by simp
  moreover from from_json_helper_timeout_floor [OF g u] have "time_out_in_min u = PInt 62" by simp
  ultimately show ?thesis using g t u by blast
qed

section \<open>Properties of the docker image names\<close>

lemma digit_val_nth: "k < 10 \<Longrightarrow> digit_val (''0123456789'' ! k) = k"
proof -
  assume "k < 10"
  then have "k \<in> {0,1,2,3,4,5,6,7,8,9}" by auto
  then show ?thesis by (auto simp: digit_val_def)
qed

lemma nat_of_digits_snoc: "nat_of_digits (s @ [c]) = 10 * nat_of_digits s + digit_val c"
  by (simp add: nat_of_digits_def)

lemma nat_of_digits_str_nat: "nat_of_digits (str_nat n) = n"
proof (induction n rule: str_nat.induct)
  case (1 n)
  show ?case
  proof (cases "n < 10")
    case True
    then show ?thesis
      using digit_val_nth [of n] by (subst str_nat.simps) (simp add: nat_of_digits_def)
  next
    case False
    have "str_nat n = str_nat (n div 10) @ [''0123456789'' ! (n mod 10)]"
      using False by (subst str_nat.simps) simp
    then show ?thesis
      using 1 False digit_val_nth [of "n mod 10"] by (simp add: nat_of_digits_snoc)
  qed
qed

lemma nat_of_digits_zeros: "nat_of_digits (replicate k (CHR ''0'') @ s) = nat_of_digits s"
proof (induction k)
  case 0
  show ?case by simp
next
  case (Suc k)
  have "nat_of_digits (CHR ''0'' # t) = nat_of_digits t" for t
    by (simp add: nat_of_digits_def digit_val_def)
  with Suc show ?case by simp
qed

lemma nat_of_digits_zero_pad: "nat_of_digits (zero_pad w (str_nat n)) = n"
  by (simp add: zero_pad_def nat_of_digits_zeros nat_of_digits_str_nat)

lemma length_str_nat_1: "n < 10 \<Longrightarrow> length (str_nat n) = 1"
  by (subst str_nat.simps) simp

lemma length_str_nat_step: "10 \<le> n \<Longrightarrow> length (str_nat n) = Suc (length (str_nat (n div 10)))"
  by (subst str_nat.simps) simp

lemma length_str_nat_2: "10 \<le> n \<Longrightarrow> n < 100 \<Longrightarrow> length (str_nat n) = 2"
proof -
  assume "10 \<le> n" "n < 100"
  then have "n div 10 < 10" by arith
  with \<open>10 \<le> n\<close> show ?thesis
    using length_str_nat_step [of n] length_str_nat_1 [of "n div 10"] by simp
qed

lemma length_str_nat_3: "100 \<le> n \<Longrightarrow> n < 1000 \<Longrightarrow> length (str_nat n) = 3"
proof -
  assume "100 \<le> n" "n < 1000"
  then have "10 \<le> n div 10" "n div 10 < 100" "10 \<le> n" by arith+
  then show ?thesis
    using length_str_nat_step [of n] length_str_nat_2 [of "n div 10"] by simp
qed

lemma length_str_nat_4: "1000 \<le> n \<Longrightarrow> n < 10000 \<Longrightarrow> length (str_nat n) = 4"
proof -
  assume "1000 \<le> n" "n < 10000"
  then have "100 \<le> n div 10" "n div 10 < 1000" "10 \<le> n" by arith+
  then show ?thesis
    using length_str_nat_step [of n] length_str_nat_3 [of "n div 10"] by simp
qed

lemma length_zero_pad_2: "n < 100 \<Longrightarrow> length (zero_pad 2 (str_nat n)) = 2"
proof -
  assume "n < 100"
  then consider "n < 10" | "10 \<le> n" "n < 100" by linarith
  then show ?thesis
    by cases (simp_all add: zero_pad_def length_str_nat_1 length_str_nat_2)
qed

lemma date_fields_eq:
  assumes "valid_date d" "valid_date d'"
    and y: "str_nat (year d) = str_nat (year d')"
    and m: "zero_pad 2 (str_nat (month d)) = zero_pad 2 (str_nat (month d'))"
    and a: "zero_pad 2 (str_nat (day d)) = zero_pad 2 (str_nat (day d'))"
  shows "d = d'"
proof -
  from y have "year d = year d'"
    by (metis nat_of_digits_str_nat)
  moreover from m have "month d = month d'"
    by (metis nat_of_digits_zero_pad)
  moreover from a have "day d = day d'"
    by (metis nat_of_digits_zero_pad)
  ultimately show ?thesis by simp
qed

lemma strftime_Y_m_d_inj:
  assumes "valid_date d" "valid_date d'" "strftime_Y_m_d d = strftime_Y_m_d d'"
  shows "d = d'"
proof -
  have ly: "length (str_nat (year d)) = length (str_nat (year d'))"
    using assms(1,2) by (simp add: valid_date_def length_str_nat_4)
  have lm: "length (zero_pad 2 (str_nat (month d))) = length (zero_pad 2 (str_nat (month d')))"
    using assms(1,2) by (simp add: valid_date_def length_zero_pad_2)
  from assms(3) ly lm
  have "str_nat (year d) = str_nat (year d')
        \<and> zero_pad 2 (str_nat (month d)) = zero_pad 2 (str_nat (month d'))
        \<and> zero_pad 2 (str_nat (day d)) = zero_pad 2 (str_nat (day d'))"
    by (simp add: strftime_Y_m_d_def)
  with assms(1,2) show ?thesis by (simp add: date_fields_eq)
qed

lemma strftime_Ymd_inj:
  assumes "valid_date d" "valid_date d'" "strftime_Ymd d = strftime_Ymd d'"
  shows "d = d'"
proof -
  have ly: "length (str_nat (year d)) = length (str_nat (year d'))"
    using assms(1,2) by (simp add: valid_date_def length_str_nat_4)
  have lm: "length (zero_pad 2 (str_nat (month d))) = length (zero_pad 2 (str_nat (month d')))"
    using assms(1,2) by (simp add: valid_date_def length_zero_pad_2)
  from assms(3) ly lm
  have "str_nat (year d) = str_nat (year d')
        \<and> zero_pad 2 (str_nat (month d)) = zero_pad 2 (str_nat (month d'))
        \<and> zero_pad 2 (str_nat (day d)) = zero_pad 2 (str_nat (day d'))"
    by (simp add: strftime_Ymd_def)
  with assms(1,2) show ?thesis by (simp add: date_fields_eq)
qed

text \<open>
  C7, as amended. \<open>XPK_JAX_TEST\<close> has one fixed value. The value of every other
  \<open>DockerImage\<close> member is a fixed prefix followed by the date of the day on which the
  module is imported: two evaluations give the same string exactly when they happen on
  the same date.
\<close>

theorem DockerImage_value_date:
  assumes "valid_date d" "valid_date d'"
  shows "DockerImage_value d XPK_JAX_TEST = DockerImage_value d' XPK_JAX_TEST
         \<and> (m \<noteq> XPK_JAX_TEST \<longrightarrow> (DockerImage_value d m = DockerImage_value d' m \<longleftrightarrow> d = d'))"
  using strftime_Y_m_d_inj [OF assms] strftime_Ymd_inj [OF assms]
  by (cases m) auto

theorem DockerImage_value_date_witness:
  "valid_date \<lparr>year = 2024, month = 6, day = 3\<rparr> \<and> valid_date \<lparr>year = 2024, month = 12, day = 31\<rparr>
   \<and> DockerImage_value \<lparr>year = 2024, month = 6, day = 3\<rparr> XPK_JAX_TEST
       = DockerImage_value \<lparr>year = 2024, month = 12, day = 31\<rparr> XPK_JAX_TEST
   \<and> MAXTEXT_TPU_JAX_NIGHTLY \<noteq> XPK_JAX_TEST
   \<and> DockerImage_value \<lparr>year = 2024, month = 6, day = 3\<rparr> MAXTEXT_TPU_JAX_NIGHTLY
       \<noteq> DockerImage_value \<lparr>year = 2024, month = 12, day = 31\<rparr> MAXTEXT_TPU_JAX_NIGHTLY"
proof -
  have v: "valid_date \<lparr>year = 2024, month = 6, day = 3\<rparr>"
    "valid_date \<lparr>year = 2024, month = 12, day = 31\<rparr>"
    by (simp_all add: valid_date_def)
  from DockerImage_value_date [OF v, of MAXTEXT_TPU_JAX_NIGHTLY] v show ?thesis
    by simp
qed

text \<open>
  C7, as stated, fails: \<open>PYTORCH_NIGHTLY\<close> evaluated on 3 June 2024 and on 4 June 2024
  are two different strings.
\<close>

theorem DockerImage_value_not_fixed:
  "DockerImage_value \<lparr>year = 2024, month = 6, day = 3\<rparr> PYTORCH_NIGHTLY
   \<noteq> DockerImage_value \<lparr>year = 2024, month = 6, day = 4\<rparr> PYTORCH_NIGHTLY"
  by (simp add: strftime_Ymd_def zero_pad_def str_nat.simps)

section \<open>Properties of the maxdiffusion configuration builder\<close>

lemma json_loads_metrics_file: "json_loads ''metrics.json'' = Inl JSONDecodeError"
  by code_simp

lemma modify_save_metrics_raises:
  "modify_save_metrics ''metrics.json'' model_configs = Inl JSONDecodeError"
  by (simp add: modify_save_metrics_def json_loads_metrics_file)

lemma TpuVmTest_rejects_keywords:
  "unexpected_keywords TpuVmTest_fields
     [''test_name'', ''set_up_cmds'', ''run_model_cmds'', ''timeout'', ''task_owner'',
      ''num_slices'', ''gcs_subfolder''] = [''timeout'', ''gcs_subfolder'']"
  by (simp add: unexpected_keywords_def TpuVmTest_fields_def)

lemma assign_run_model_cmds_supported:
  assumes "model_name \<in> {PStr ''SDXL-Base-1.0'', PStr ''SDXL-Lightning'', PStr ''SDXL-ControlNet''}"
    and "py_str per_device_bat_size = Inr b" and "py_str attention = Inr a"
  shows "\<exists>cmds. assign_run_model_cmds c model_name per_device_bat_size attention = Inr (Some cmds)
           \<and> cmds \<noteq> [] \<and> last cmds = ''gsutil cp metrics.json '' @ GCS_OUTPUT c"
  using assms by (auto simp: assign_run_model_cmds_def)

lemma nightly_config_supported_raises:
  assumes "dict_get model_configs ''per_device_batch_size'' = Inr (PInt n)"
    and "dict_get model_configs ''attention'' = Inr (PStr a)"
    and "dict_get model_configs ''model_name'' = Inr m"
    and "m \<in> {PStr ''SDXL-Base-1.0'', PStr ''SDXL-Lightning'', PStr ''SDXL-ControlNet''}"
  shows "get_maxdiffusion_inference_nightly_config c tpu_version tpu_cores tpu_zone timeout name
           test_mode project runtime net subnet is_reserved slices model_configs
         = Inl JSONDecodeError"
proof -
  obtain cmds where "assign_run_model_cmds c m (PInt n) (PStr a) = Inr (Some cmds)"
    using assign_run_model_cmds_supported [OF assms(4), of "PInt n" _ "PStr a" a c] by auto
  then show ?thesis
    using assms(1-3)
    by (simp add: get_maxdiffusion_inference_nightly_config_def Let_def modify_save_metrics_raises)
qed

lemma example_model_configs_get:
  "dict_get (example_model_configs m) ''per_device_batch_size'' = Inr (PInt 2)"
  "dict_get (example_model_configs m) ''attention'' = Inr (PStr ''flash'')"
  "dict_get (example_model_configs m) ''model_name'' = Inr (PStr m)"
  by (simp_all add: example_model_configs_def dict_get_def)

text \<open>
  C1 fails on the code. No call of \<open>get_maxdiffusion_inference_nightly_config\<close>
  returns a task, whatever its arguments; and with the three keys present, an integer
  batch size, a string for the attention and the model name \<open>SDXL-Base-1.0\<close>, the call
  raises \<open>JSONDecodeError\<close>: \<open>_modify_save_metrics\<close> hands the file name
  \<open>metrics.json\<close> to \<open>json.loads\<close>, which parses its argument as JSON text.
\<close>

theorem nightly_config_raises:
  "get_maxdiffusion_inference_nightly_config c tpu_version tpu_cores tpu_zone timeout name
     test_mode project runtime net subnet is_reserved slices model_configs \<noteq> Inr task
   \<and> get_maxdiffusion_inference_nightly_config example_constants V5E 4 ''us-east1-c'' 60
       ''maxdiffusion-nightly-sdxl'' STABLE PROJECT_NAME RUNTIME_IMAGE ''default'' ''default''
       True 1 (example_model_configs ''SDXL-Base-1.0'') = Inl JSONDecodeError"
proof
  show "get_maxdiffusion_inference_nightly_config c tpu_version tpu_cores tpu_zone timeout name
     test_mode project runtime net subnet is_reserved slices model_configs \<noteq> Inr task"
    by (auto simp: get_maxdiffusion_inference_nightly_config_def Let_def py_bind_eq_Inr
        modify_save_metrics_raises)
  show "get_maxdiffusion_inference_nightly_config example_constants V5E 4 ''us-east1-c'' 60
       ''maxdiffusion-nightly-sdxl'' STABLE PROJECT_NAME RUNTIME_IMAGE ''default'' ''default''
       True 1 (example_model_configs ''SDXL-Base-1.0'') = Inl JSONDecodeError"
    by (rule nightly_config_supported_raises [OF example_model_configs_get]) simp
qed

text \<open>
  C6 holds for the commands and fails for the task. For each of the three model names
  the commands assigned to \<open>run_model_cmds\<close> end with the copy of \<open>metrics.json\<close> to
  the GCS output location, but the call raises \<open>JSONDecodeError\<close> before it builds the
  metric configuration, so there is no returned task that has one.
\<close>

theorem nightly_config_metrics_upload:
  "(\<exists>cmds. assign_run_model_cmds c (PStr ''SDXL-Base-1.0'') (PInt 2) (PStr ''flash'') = Inr (Some cmds)
       \<and> last cmds = ''gsutil cp metrics.json '' @ GCS_OUTPUT c)
   \<and> (\<exists>cmds. assign_run_model_cmds c (PStr ''SDXL-Lightning'') (PInt 2) (PStr ''flash'') = Inr (Some cmds)
       \<and> last cmds = ''gsutil cp metrics.json '' @ GCS_OUTPUT c)
   \<and> (\<exists>cmds. assign_run_model_cmds c (PStr ''SDXL-ControlNet'') (PInt 2) (PStr ''flash'') = Inr (Some cmds)
       \<and> last cmds = ''gsutil cp metrics.json '' @ GCS_OUTPUT c)
   \<and> get_maxdiffusion_inference_nightly_config c V5E 4 ''us-east1-c'' 60
       ''maxdiffusion-nightly-sdxl'' STABLE PROJECT_NAME RUNTIME_IMAGE ''default'' ''default''
       True 1 (example_model_configs ''SDXL-Base-1.0'') = Inl JSONDecodeError
   \<and> get_maxdiffusion_inference_nightly_config c V5E 4 ''us-east1-c'' 60
       ''maxdiffusion-nightly-sdxl'' STABLE PROJECT_NAME RUNTIME_IMAGE ''default'' ''default''
       True 1 (example_model_configs ''SDXL-Lightning'') = Inl JSONDecodeError
   \<and> get_maxdiffusion_inference_nightly_config c V5E 4 ''us-east1-c'' 60
       ''maxdiffusion-nightly-sdxl'' STABLE PROJECT_NAME RUNTIME_IMAGE ''default'' ''default''
       True 1 (example_model_configs ''SDXL-ControlNet'') = Inl JSONDecodeError"
proof -
  have cmds: "\<exists>cmds. assign_run_model_cmds c m (PInt 2) (PStr ''flash'') = Inr (Some cmds)
       \<and> last cmds = ''gsutil cp metrics.json '' @ GCS_OUTPUT c"
    if "m \<in> {PStr ''SDXL-Base-1.0'', PStr ''SDXL-Lightning'', PStr ''SDXL-ControlNet''}" for m
    using assign_run_model_cmds_supported [OF that, of "PInt 2" _ "PStr ''flash''" _ c]
    by (auto simp: str_int_def)
  have raises: "get_maxdiffusion_inference_nightly_config c V5E 4 ''us-east1-c'' 60
       ''maxdiffusion-nightly-sdxl'' STABLE PROJECT_NAME RUNTIME_IMAGE ''default'' ''default''
       True 1 (example_model_configs m) = Inl JSONDecodeError"
    if "PStr m \<in> {PStr ''SDXL-Base-1.0'', PStr ''SDXL-Lightning'', PStr ''SDXL-ControlNet''}" for m
    by (rule nightly_config_supported_raises [OF example_model_configs_get that])
  show ?thesis
    using cmds [of "PStr ''SDXL-Base-1.0''"] cmds [of "PStr ''SDXL-Lightning''"]
      cmds [of "PStr ''SDXL-ControlNet''"]
      raises [of "''SDXL-Base-1.0''"] raises [of "''SDXL-Lightning''"]
      raises [of "''SDXL-ControlNet''"]
    by simp
qed

section \<open>Properties of \<open>generate_model_configs\<close>\<close>

lemma py_bind_assoc: "py_bind (py_bind m f) g = py_bind m (\<lambda>x. py_bind (f x) g)"
  by (cases m) simp_all

lemma py_bind_cong:
  "m = m' \<Longrightarrow> (\<And>x. m' = Inr x \<Longrightarrow> f x = g x) \<Longrightarrow> py_bind m f = py_bind m' g"
  by (cases m') simp_all

text \<open>
  The builder \<open>config\<close> is called last, on keyword arguments that do not depend on it:
  a call with any builder is the call with the builder that returns its arguments,
  followed by the builder.
\<close>

lemma generate_model_configs_natural:
  "generate_model_configs config prefix name sweep ao att ici bs rr wm tv tc
   = py_bind (generate_model_configs Inr prefix name sweep ao att ici bs rr wm tv tc) config"
  by (simp add: generate_model_configs_def py_bind_assoc Let_def)

lemma generate_model_configs_v5e_kwargs:
  assumes "generate_model_configs Inr prefix name sweep ao att ici bs rr wm (PTpuVersion V5E) tc = Inr kw"
  shows "kw_project_name kw = ''tpu-prod-env-automated''
         \<and> kw_tpu_zone kw = ''us-east1-c''
         \<and> kw_network kw = V5_NETWORKS
         \<and> kw_subnetwork kw = V5E_SUBNETWORKS
         \<and> kw_runtime_version kw = ''v2-alpha-tpuv5-lite''"
  using assms
  by (auto simp: generate_model_configs_def Let_def py_bind_eq_Inr py_local_def)

text \<open>
  C5. For every call of \<open>generate_model_configs\<close> with \<open>TpuVersion.V5E\<close> that produces
  a task, the task is the builder's result on keyword arguments with project
  \<open>tpu-prod-env-automated\<close>, zone \<open>us-east1-c\<close>, network \<open>V5_NETWORKS\<close>, subnetwork
  \<open>V5E_SUBNETWORKS\<close> and runtime version \<open>v2-alpha-tpuv5-lite\<close>.
\<close>

theorem generate_model_configs_v5e:
  assumes "generate_model_configs config prefix name sweep ao att ici bs rr wm (PTpuVersion V5E) tc = Inr task"
  shows "\<exists>kw. generate_model_configs Inr prefix name sweep ao att ici bs rr wm (PTpuVersion V5E) tc = Inr kw
           \<and> config kw = Inr task
           \<and> kw_project_name kw = ''tpu-prod-env-automated''
           \<and> kw_tpu_zone kw = ''us-east1-c''
           \<and> kw_network kw = V5_NETWORKS
           \<and> kw_subnetwork kw = V5E_SUBNETWORKS
           \<and> kw_runtime_version kw = ''v2-alpha-tpuv5-lite''"
proof -
  from assms obtain kw where
    kw: "generate_model_configs Inr prefix name sweep ao att ici bs rr wm (PTpuVersion V5E) tc = Inr kw"
    and c: "config kw = Inr task"
    by (subst (asm) generate_model_configs_natural) (auto simp: py_bind_eq_Inr)
  with generate_model_configs_v5e_kwargs [OF kw] show ?thesis by blast
qed

theorem generate_model_configs_v5e_witness:
  "\<exists>kw. generate_model_configs Inr test_name_prefix ''llama2-7b-base-w-b16-kv-b16'' example_sweep
           (PStr ''2103-2013'') (PStr ''autoselected'') (PTuple [PInt 1, PInt 1, PInt (- 1)])
           (PInt 10) (PFloat ''0.0'') (PStr ''full'') (PTpuVersion V5E) (PInt 8) = Inr kw
         \<and> kw_test_name kw = ''mor-max-js-llama2-7b-base-w-b16-kv-b16-2103-2013-bs10-auto''
         \<and> kw_project_name kw = ''tpu-prod-env-automated''
         \<and> kw_tpu_zone kw = ''us-east1-c''
         \<and> kw_network kw = ''projects/tpu-prod-env-automated/global/networks/mas-test''
         \<and> kw_subnetwork kw = ''projects/tpu-prod-env-automated/regions/us-east1/subnetworks/mas-test''
         \<and> kw_runtime_version kw = ''v2-alpha-tpuv5-lite''"
proof -
  let ?call = "generate_model_configs Inr test_name_prefix ''llama2-7b-base-w-b16-kv-b16'' example_sweep
           (PStr ''2103-2013'') (PStr ''autoselected'') (PTuple [PInt 1, PInt 1, PInt (- 1)])
           (PInt 10) (PFloat ''0.0'') (PStr ''full'') (PTpuVersion V5E) (PInt 8)"
  have "(case ?call of Inl e \<Rightarrow> False
         | Inr kw \<Rightarrow> kw_test_name kw = ''mor-max-js-llama2-7b-base-w-b16-kv-b16-2103-2013-bs10-auto'')"
    by code_simp
  then obtain kw where kw: "?call = Inr kw"
    and name: "kw_test_name kw = ''mor-max-js-llama2-7b-base-w-b16-kv-b16-2103-2013-bs10-auto''"
    by (cases ?call) simp_all
  from generate_model_configs_v5e [OF kw] kw name show ?thesis
    by (simp add: V5_NETWORKS_def V5E_SUBNETWORKS_def V5_NETWORKS_PREFIX_def)
qed

text \<open>
  C8, as amended. A call of \<open>generate_model_configs\<close> with any value other than
  \<open>TpuVersion.V5E\<close> as \<open>tpu_version\<close> produces no task. When the statements before
  the call of the builder complete, that is, when \<open>model_configs\<close> and the test name
  are built, the exception is the \<open>NameError\<close> for the unassigned local \<open>zone\<close>, the
  first of the five that the call reads.
\<close>

theorem generate_model_configs_other_version:
  assumes "tv \<noteq> PTpuVersion V5E"
  shows "generate_model_configs config prefix name sweep ao att ici bs rr wm tv tc \<noteq> Inr task
    \<and> (build_model_configs name sweep ao att ici bs rr wm = Inr model_configs
        \<and> build_test_name prefix name sweep ao bs att = Inr test_name'
       \<longrightarrow> generate_model_configs config prefix name sweep ao att ici bs rr wm tv tc
           = Inl (UnboundLocalError ''zone''))"
  using assms
  by (auto simp: generate_model_configs_def Let_def py_bind_eq_Inr py_local_def)

theorem generate_model_configs_other_version_witness:
  "PTpuVersion V4 \<noteq> PTpuVersion V5E
   \<and> generate_model_configs Inr test_name_prefix ''llama2-7b-base-w-b16-kv-b16'' example_sweep
        (PStr ''2103-2013'') (PStr ''autoselected'') (PTuple [PInt 1, PInt 1, PInt (- 1)])
        (PInt 10) (PFloat ''0.0'') (PStr ''full'') (PTpuVersion V4) (PInt 8)
      = Inl (UnboundLocalError ''zone'')"
proof -
  have "\<not> isl (build_model_configs ''llama2-7b-base-w-b16-kv-b16'' example_sweep
        (PStr ''2103-2013'') (PStr ''autoselected'') (PTuple [PInt 1, PInt 1, PInt (- 1)])
        (PInt 10) (PFloat ''0.0'') (PStr ''full''))"
    by code_simp
  then obtain model_configs where m:
    "build_model_configs ''llama2-7b-base-w-b16-kv-b16'' example_sweep
        (PStr ''2103-2013'') (PStr ''autoselected'') (PTuple [PInt 1, PInt 1, PInt (- 1)])
        (PInt 10) (PFloat ''0.0'') (PStr ''full'') = Inr model_configs"
    by (metis sum.collapse(2))
  have "\<not> isl (build_test_name test_name_prefix ''llama2-7b-base-w-b16-kv-b16'' example_sweep
        (PStr ''2103-2013'') (PInt 10) (PStr ''autoselected''))"
    by code_simp
  then obtain test_name' where n:
    "build_test_name test_name_prefix ''llama2-7b-base-w-b16-kv-b16'' example_sweep
        (PStr ''2103-2013'') (PInt 10) (PStr ''autoselected'') = Inr test_name'"
    by (metis sum.collapse(2))
  have v: "PTpuVersion V4 \<noteq> PTpuVersion V5E"
    by simp
  from generate_model_configs_other_version [OF v, of Inr test_name_prefix
      "''llama2-7b-base-w-b16-kv-b16''" example_sweep "PStr ''2103-2013''" "PStr ''autoselected''"
      "PTuple [PInt 1, PInt 1, PInt (- 1)]" "PInt 10" "PFloat ''0.0''" "PStr ''full''" "PInt 8"
      undefined model_configs test_name'] m n v
  show ?thesis
    by simp
qed

text \<open>
  C8, as stated, fails: with \<open>TpuVersion.V4\<close> and a sweep configuration that has no
  entry \<open>maxtext_branch\<close>, the call raises \<open>KeyError\<close> on line 81, before it reads
  any unassigned local.
\<close>

theorem generate_model_configs_other_version_KeyError:
  "generate_model_configs Inr test_name_prefix ''llama2-7b-base-w-b16-kv-b16'' (PDict [])
     (PStr ''2103-2013'') (PStr ''autoselected'') (PTuple [PInt 1, PInt 1, PInt (- 1)])
     (PInt 10) (PFloat ''0.0'') (PStr ''full'') (PTpuVersion V4) (PInt 8)
   = Inl (KeyError ''maxtext_branch'')"
  by code_simp

section \<open>Properties of the DAG\<close>

subsection \<open>Iteration\<close>

lemma for_each_append:
  "for_each (xs @ ys) body s = py_bind (for_each xs body s) (for_each ys body)"
  by (induction xs arbitrary: s) (simp_all add: py_bind_assoc cong: py_bind_cong)

lemma for_each_map: "for_each (map f xs) body s = for_each xs (\<lambda>x. body (f x)) s"
  by (induction xs arbitrary: s) (simp_all cong: py_bind_cong)

lemma for_each_cong:
  "(\<And>x s. x \<in> set xs \<Longrightarrow> body x s = body' x s) \<Longrightarrow> for_each xs body s = for_each xs body' s"
  by (induction xs arbitrary: s) (simp_all cong: py_bind_cong)

lemma for_each_concat:
  "for_each xs (\<lambda>x. for_each (f x) (body x)) s
   = for_each (concat (map (\<lambda>x. map (Pair x) (f x)) xs)) (\<lambda>(x, y). body x y) s"
  by (induction xs arbitrary: s) (simp_all add: for_each_append for_each_map cong: py_bind_cong)

lemma for_each_product:
  "for_each xs (\<lambda>x. for_each ys (body x)) = for_each (List.product xs ys) (\<lambda>(x, y). body x y)"
proof
  fix s show "for_each xs (\<lambda>x. for_each ys (body x)) s = for_each (List.product xs ys) (\<lambda>(x, y). body x y) s"
    by (induction xs arbitrary: s) (simp_all add: for_each_append for_each_map cong: py_bind_cong)
qed

lemma for_each_filter:
  "for_each xs (\<lambda>x s. if P x then body x s else Inr s) s = for_each (filter P xs) body s"
  by (induction xs arbitrary: s) (simp_all cong: py_bind_cong)

lemma for_each_collect:
  "for_each xs (\<lambda>x tasks. py_bind (g x) (\<lambda>t. Inr (tasks @ [t]))) s
   = py_bind (collect (map g xs)) (\<lambda>ts. Inr (s @ ts))"
proof (induction xs arbitrary: s)
  case Nil
  show ?case by simp
next
  case (Cons x xs)
  show ?case
    by (cases "g x") (simp_all add: Cons py_bind_assoc)
qed

lemma py_for_sweep_list:
  assumes "iterable_key sweep k"
  shows "py_for (py_getitem sweep k) body = for_each (sweep_list sweep k) body"
proof
  fix s
  from assms show "py_for (py_getitem sweep k) body s = for_each (sweep_list sweep k) body s"
    by (auto simp: iterable_key_def sweep_list_def py_for_def split: sum.splits)
qed

lemma sweep_nest_points:
  assumes "sweep_ok sweep"
  shows "sweep_nest config name sweep tasks
         = for_each (points_list sweep)
             (\<lambda>p tasks. py_bind (task_for config name sweep p) (\<lambda>t. Inr (tasks @ [t]))) tasks"
proof -
  from assms have it:
    "iterable_key sweep ''tpu_version_cores''" "iterable_key sweep ''axis_order''"
    "iterable_key sweep ''attention''" "iterable_key sweep ''ici_parallelisms''"
    "iterable_key sweep ''per_device_batch_sizes''" "iterable_key sweep ''request_rate''"
    "iterable_key sweep ''warmup_mode''"
    and un: "\<And>tvc. tvc \<in> set (sweep_list sweep ''tpu_version_cores'') \<Longrightarrow> \<not> isl (py_unpack2 tvc)"
    by (simp_all add: sweep_ok_def list_all_iff)
  let ?inner = "\<lambda>tvc. for_each (sweep_list sweep ''axis_order'') (\<lambda>ao.
       for_each (sweep_list sweep ''attention'') (\<lambda>att.
       for_each (sweep_list sweep ''ici_parallelisms'') (\<lambda>ici.
       for_each (sweep_list sweep ''per_device_batch_sizes'') (\<lambda>bs.
       for_each (sweep_list sweep ''request_rate'') (\<lambda>rr.
       for_each (sweep_list sweep ''warmup_mode'') (\<lambda>wm tasks.
         py_bind (task_for config name sweep (tvc, ao, att, ici, bs, rr, wm))
           (\<lambda>t. Inr (tasks @ [t]))))))))"
  have "sweep_nest config name sweep tasks
        = for_each (sweep_list sweep ''tpu_version_cores'') ?inner tasks"
    unfolding sweep_nest_def py_for_sweep_list [OF it(1)] py_for_sweep_list [OF it(2)]
      py_for_sweep_list [OF it(3)] py_for_sweep_list [OF it(4)] py_for_sweep_list [OF it(5)]
      py_for_sweep_list [OF it(6)] py_for_sweep_list [OF it(7)]
  proof (rule for_each_cong)
    fix tvc s
    assume "tvc \<in> set (sweep_list sweep ''tpu_version_cores'')"
    then obtain tv tc where "py_unpack2 tvc = Inr (tv, tc)"
      using un [of tvc] by (cases "py_unpack2 tvc") auto
    then show "py_bind (py_unpack2 tvc) (\<lambda>(tpu_version, tpu_cores).
         for_each (sweep_list sweep ''axis_order'') (\<lambda>axis_order.
         for_each (sweep_list sweep ''attention'') (\<lambda>attention.
         for_each (sweep_list sweep ''ici_parallelisms'') (\<lambda>ici_parallelism.
         for_each (sweep_list sweep ''per_device_batch_sizes'') (\<lambda>per_device_batch_size.
         for_each (sweep_list sweep ''request_rate'') (\<lambda>request_rate.
         for_each (sweep_list sweep ''warmup_mode'') (\<lambda>warmup_mode tasks.
           py_bind (generate_model_configs config test_name_prefix name sweep axis_order
                      attention ici_parallelism per_device_batch_size request_rate warmup_mode
                      tpu_version tpu_cores)
             (\<lambda>task. Inr (tasks @ [task])))))))) s) = ?inner tvc s"
      by (simp add: task_for_def)
  qed
  also have "\<dots> = for_each (points_list sweep)
             (\<lambda>p tasks. py_bind (task_for config name sweep p) (\<lambda>t. Inr (tasks @ [t]))) tasks"
    by (simp add: for_each_product points_list_def case_prod_unfold)
  finally show ?thesis .
qed


subsection \<open>The configurations of the DAG\<close>

text \<open>
  What the proof needs of the six configurations, computed once: their names differ,
  every name of \<open>run_configs\<close> is one of them and each of them is selected, the
  products have 18 elements in all, each configuration has the seven sweep entries, no
  product has an element twice, and at every element of a product
  \<open>generate_model_configs\<close> gets as far as calling the builder.
\<close>

lemma dag_facts:
  "(case tests of
      Inl e \<Rightarrow> False
    | Inr d \<Rightarrow>
        distinct (map fst d)
        \<and> list_all (\<lambda>n. n \<in> set (map fst d)) run_configs
        \<and> list_all selected (map fst d)
        \<and> sum_list (map (\<lambda>x. length (points_list (snd x))) d) = 18
        \<and> list_all (\<lambda>x. sweep_ok (snd x) \<and> distinct (points_list (snd x))
                        \<and> list_all (\<lambda>p. \<not> isl (task_for Inr (fst x) (snd x) p)) (points_list (snd x))) d)"
  by code_simp

lemma tests_eq: "tests = Inr tests_dict"
proof -
  have "(case t of Inl e \<Rightarrow> False | Inr d \<Rightarrow> Q d)
        \<Longrightarrow> t = Inr (case t of Inl e \<Rightarrow> [] | Inr d \<Rightarrow> d)" for t :: "error + dict" and Q
    by (cases t) simp_all
  from this [OF dag_facts] show ?thesis
    by (simp only: tests_dict_def)
qed

lemma tests_dict_facts:
  "distinct (map fst tests_dict)"
  "set run_configs \<subseteq> fst ` set tests_dict"
  "x \<in> set tests_dict \<Longrightarrow> sweep_ok (snd x)"
  "x \<in> set tests_dict \<Longrightarrow> distinct (points_list (snd x))"
  "x \<in> set tests_dict \<Longrightarrow> p \<in> set (points_list (snd x)) \<Longrightarrow> \<not> isl (task_for Inr (fst x) (snd x) p)"
  "x \<in> set tests_dict \<Longrightarrow> selected (fst x)"
  "sum_list (map (\<lambda>x. length (points_list (snd x))) tests_dict) = 18"
  using dag_facts unfolding tests_eq by (auto simp: list_all_iff)

lemma configuration_eq:
  assumes "(n, s) \<in> set tests_dict"
  shows "configuration n = s"
proof -
  from assms tests_dict_facts(1) have "map_of tests_dict n = Some s"
    by simp
  then show ?thesis by (simp add: configuration_def dict_get_def)
qed

lemma selected_names: "set (filter selected (map fst tests_dict)) = set run_configs - set skip_configs"
proof -
  have "run_configs \<noteq> []" by (simp add: run_configs_def)
  then show ?thesis
    using tests_dict_facts(2) by (auto simp: selected_def skip_configs_def)
qed

lemma set_points_list: "set (points_list sweep) = sweep_points sweep"
  by (simp add: points_list_def sweep_points_def)

lemma distinct_pairs:
  "distinct ns \<Longrightarrow> (\<And>n. n \<in> set ns \<Longrightarrow> distinct (f n))
   \<Longrightarrow> distinct (concat (map (\<lambda>n. map (Pair n) (f n)) ns))"
  by (induction ns) (auto simp: distinct_map inj_on_def)

lemma dag_points_distinct: "distinct dag_points"
  unfolding dag_points_def
proof (rule distinct_pairs)
  show "distinct (filter selected (map fst tests_dict))"
    using tests_dict_facts(1) by simp
next
  fix n assume "n \<in> set (filter selected (map fst tests_dict))"
  then obtain s where x: "(n, s) \<in> set tests_dict" by auto
  with tests_dict_facts(4) [OF x] configuration_eq [OF x]
  show "distinct (points_list (configuration n))" by simp
qed

lemma dag_points_set:
  "set dag_points = (SIGMA name : set run_configs - set skip_configs. sweep_points (configuration name))"
proof -
  have "set dag_points = (SIGMA name : set (filter selected (map fst tests_dict)). set (points_list (configuration name)))"
    unfolding dag_points_def by auto
  then show ?thesis
    by (simp only: selected_names set_points_list)
qed

lemma pairs_reindex:
  assumes "\<forall>x \<in> set xs. c (fst x) = snd x"
  shows "map (\<lambda>xp. (fst (fst xp), snd xp)) (concat (map (\<lambda>x. map (Pair x) (pl (snd x))) (filter (\<lambda>x. P (fst x)) xs)))
         = concat (map (\<lambda>n. map (Pair n) (pl (c n))) (filter P (map fst xs)))"
  using assms by (induction xs) (auto simp: map_concat comp_def)

lemma task_for_natural:
  "task_for config name sweep p = py_bind (task_for Inr name sweep p) config"
proof -
  have n: "generate_model_configs config prefix name sweep ao att ici bs rr wm tv tc
   = py_bind (generate_model_configs Inr prefix name sweep ao att ici bs rr wm tv tc) config"
    for prefix ao att ici bs rr wm tv tc
    by (simp add: generate_model_configs_def py_bind_assoc Let_def)
  show ?thesis
    by (cases p) (simp add: task_for_def py_bind_assoc n [symmetric] case_prod_unfold)
qed

lemma dag_loop_points:
  "dag config = py_bind (collect (map (\<lambda>np. task_for config (fst np) (configuration (fst np)) (snd np)) dag_points)) Inr"
proof -
  let ?add = "\<lambda>r tasks. py_bind r (\<lambda>t. Inr (tasks @ [t]))"
  have "dag config = dag_loop config tests_dict []"
    by (simp add: dag_def tests_eq)
  also have "\<dots> = for_each tests_dict
      (\<lambda>x tasks. if selected (fst x) then sweep_nest config (fst x) (snd x) tasks else Inr tasks) []"
    unfolding dag_loop_def
    by (rule for_each_cong) (auto simp: selected_def)
  also have "\<dots> = for_each (filter (\<lambda>x. selected (fst x)) tests_dict)
      (\<lambda>x. sweep_nest config (fst x) (snd x)) []"
    by (rule for_each_filter)
  also have "\<dots> = for_each (filter (\<lambda>x. selected (fst x)) tests_dict)
      (\<lambda>x. for_each (points_list (snd x)) (\<lambda>p. ?add (task_for config (fst x) (snd x) p))) []"
    by (rule for_each_cong) (simp add: sweep_nest_points tests_dict_facts(3))
  also have "\<dots> = for_each
      (concat (map (\<lambda>x. map (Pair x) (points_list (snd x))) (filter (\<lambda>x. selected (fst x)) tests_dict)))
      (\<lambda>(x, p). ?add (task_for config (fst x) (snd x) p)) []"
    by (rule for_each_concat)
  also have "\<dots> = for_each
      (concat (map (\<lambda>x. map (Pair x) (points_list (snd x))) (filter (\<lambda>x. selected (fst x)) tests_dict)))
      (\<lambda>xp. ?add (task_for config (fst (fst xp)) (configuration (fst (fst xp))) (snd xp))) []"
  proof (rule for_each_cong)
    fix xp :: "(string \<times> pyval) \<times> sweep_point" and s :: "'a list"
    assume "xp \<in> set (concat (map (\<lambda>x. map (Pair x) (points_list (snd x))) (filter (\<lambda>x. selected (fst x)) tests_dict)))"
    then have "fst xp \<in> set tests_dict" by auto
    then have "configuration (fst (fst xp)) = snd (fst xp)"
      using configuration_eq [of "fst (fst xp)" "snd (fst xp)"] by simp
    then show "(case xp of (x, p) \<Rightarrow> ?add (task_for config (fst x) (snd x) p)) s
        = ?add (task_for config (fst (fst xp)) (configuration (fst (fst xp))) (snd xp)) s"
      by (simp add: case_prod_unfold)
  qed
  also have "\<dots> = for_each
      (map (\<lambda>xp. (fst (fst xp), snd xp))
         (concat (map (\<lambda>x. map (Pair x) (points_list (snd x))) (filter (\<lambda>x. selected (fst x)) tests_dict))))
      (\<lambda>np. ?add (task_for config (fst np) (configuration (fst np)) (snd np))) []"
    by (simp add: for_each_map)
  also have "\<dots> = for_each dag_points
      (\<lambda>np. ?add (task_for config (fst np) (configuration (fst np)) (snd np))) []"
  proof -
    have "\<forall>x \<in> set tests_dict. configuration (fst x) = snd x"
      using configuration_eq by auto
    from pairs_reindex [OF this, of points_list selected] show ?thesis
      by (simp only: dag_points_def)
  qed
  also have "\<dots> = py_bind (collect (map (\<lambda>np. task_for config (fst np) (configuration (fst np)) (snd np)) dag_points))
      (\<lambda>ts. Inr ([] @ ts))"
    by (rule for_each_collect)
  finally show ?thesis
    by simp
qed

lemma map_natural:
  assumes "map f xs = map Inr kws" and "\<And>x. g x = py_bind (f x) config"
  shows "map g xs = map config kws"
  using assms(1) by (induction xs arbitrary: kws) (auto simp: assms(2))

text \<open>
  C2. The DAG calls the builder once for each element of a list \<open>kws\<close> of keyword
  arguments, in order, and \<open>kws\<close> lists what \<open>generate_model_configs\<close> makes of the
  elements of a list \<open>points\<close>. No pair occurs twice in \<open>points\<close>, and its pairs are
  exactly those of a name in \<open>run_configs\<close> that is not in \<open>skip_configs\<close> and an element
  of the Cartesian product of the seven sweep lists of that name's configuration. So
  every element of every product gets one task: none is visited twice, none is skipped.
\<close>

theorem dag_one_task_per_sweep_point:
  "\<exists>points kws.
      distinct points
      \<and> set points = (SIGMA name : set run_configs - set skip_configs. sweep_points (configuration name))
      \<and> map (\<lambda>(name, p). task_for Inr name (configuration name) p) points = map Inr kws
      \<and> (\<forall>config :: config_kwargs \<Rightarrow> error + 'task.
            dag config = py_bind (collect (map config kws)) Inr)"
proof -
  let ?call = "\<lambda>np. task_for Inr (fst np) (configuration (fst np)) (snd np)"
  define kws where "kws = map (\<lambda>np. projr (?call np)) dag_points"
  have ok: "\<not> isl (?call np)" if "np \<in> set dag_points" for np
  proof -
    from that obtain s where x: "(fst np, s) \<in> set tests_dict"
      "snd np \<in> set (points_list (configuration (fst np)))"
      by (auto simp: dag_points_def)
    with tests_dict_facts(5) [OF x(1), of "snd np"] configuration_eq [OF x(1)]
    show ?thesis by simp
  qed
  have calls: "map ?call dag_points = map Inr kws"
    unfolding kws_def using ok by (induction dag_points) (auto simp: sum.collapse(2))
  have "dag config = py_bind (collect (map config kws)) Inr" for config :: "config_kwargs \<Rightarrow> error + 'task"
    by (simp only: dag_loop_points map_natural [OF calls task_for_natural])
  with calls dag_points_distinct dag_points_set show ?thesis
    by (auto simp: case_prod_unfold intro!: exI [of _ dag_points] exI [of _ kws])
qed


lemma collect_Inr: "collect (map Inr xs) = Inr xs"
  by (induction xs) simp_all

lemma length_dag_points: "length dag_points = 18"
proof -
  have all: "filter selected (map fst tests_dict) = map fst tests_dict"
    using tests_dict_facts(6) by (simp add: filter_id_conv)
  have "length dag_points
        = sum_list (map (\<lambda>x. length (points_list (configuration (fst x)))) tests_dict)"
    by (simp add: dag_points_def all length_concat comp_def)
  also have "\<dots> = sum_list (map (\<lambda>x. length (points_list (snd x))) tests_dict)"
  proof -
    have "map (\<lambda>x. length (points_list (configuration (fst x)))) tests_dict
          = map (\<lambda>x. length (points_list (snd x))) tests_dict"
      using configuration_eq by (intro map_cong) auto
    then show ?thesis by (rule arg_cong)
  qed
  finally show ?thesis
    by (simp add: tests_dict_facts(7))
qed

theorem dag_one_task_per_sweep_point_witness:
  "\<exists>kws. dag Inr = Inr kws \<and> length kws = 18"
proof -
  from dag_one_task_per_sweep_point [where 'task = config_kwargs]
  obtain points kws where
    d: "distinct points"
    and s: "set points = (SIGMA name : set run_configs - set skip_configs. sweep_points (configuration name))"
    and m: "map (\<lambda>(name, p). task_for Inr name (configuration name) p) points = map Inr kws"
    and r: "dag Inr = py_bind (collect (map Inr kws)) Inr"
    by blast
  from r have "dag Inr = Inr kws"
    by (simp add: collect_Inr)
  moreover have "length kws = length points"
    using m by (metis length_map)
  moreover have "length points = length dag_points"
    using d s dag_points_distinct dag_points_set by (metis distinct_card)
  ultimately show ?thesis
    by (simp add: length_dag_points)
qed

end
